theory Spec2Isabelle
  imports Complex_Main
begin

section \<open>The one-dimensional peridynamic bar of \<open>1dbar_code.ipynb\<close>\<close>

text \<open>
  The notebook is a straight-line Python script over NumPy arrays. It is embedded here
  cell by cell. Conventions of the embedding:

  \<^item> A float64 is a \<^typ>\<open>real\<close>: rounding and overflow are not modelled. In
    particular the test \<open>s > s0\<close> of the damage factor is decided on the exact values,
    where the code compares rounded doubles: when the exact stretch equals \<open>s0\<close>, or
    differs from it by less than the rounding error of its computation, the code may
    take the other branch. What is stated below about this test is stated for a stretch
    that lies strictly on one side of \<open>s0\<close>, and evaluated only where the margin is
    many orders of magnitude above the rounding error. Numbers are given as the exact
    values; the doubles of the code agree with them up to rounding.
  \<^item> Python's own \<open>/\<close> on Python numbers raises \<open>ZeroDivisionError\<close>; this is an
    error value of the model (\<open>K\<close>, \<open>time_steps\<close>, \<open>delta_x\<close> and the micro-modulus
    \<open>c\<close> are computed on Python floats).
  \<^item> NumPy's \<open>/\<close> on float64 scalars and arrays does not raise on a zero divisor: it
    warns and yields \<open>inf\<close> or \<open>nan\<close>. The stretch \<open>s\<close>, the direction factor
    \<open>(ksi+eta)/|ksi+eta|\<close> and \<open>acceleration\<close> are computed that way. The model has
    one value \<open>NonFinite\<close> for \<open>inf\<close>, \<open>-inf\<close> and \<open>nan\<close>; on the path from a
    bond term to the displacement arrays every operation (sum, product, division by
    a finite number) maps a non-finite operand to a non-finite result, and no
    non-finite value is ever read back by the force evaluation, which reads
    \<open>node_values\<close> only.
  \<^item> An unbound Python name is \<open>None\<close>, its use \<open>NameError\<close>; an out-of-range
    array read is \<open>IndexError\<close>; a negative sample count given to \<open>np.linspace\<close> is
    \<open>ValueError\<close>.
  \<^item> The arrays have the shape \<open>(nx, ny)\<close> with \<open>ny = 1\<close>; they are lists indexed by
    the point, and the one-element arrays that arise from \<open>node_values[p]\<close> are
    numbers. \<open>ids\<close> is \<open>np.arange(len(nodes))\<close>, so the id of a point is its index.
\<close>

datatype error = ZeroDivisionError | ValueError | IndexError | NameError

datatype fval = Fin real | NonFinite

fun fadd :: "fval \<Rightarrow> fval \<Rightarrow> fval" where
  "fadd (Fin a) (Fin b) = Fin (a + b)"
| "fadd _ _ = NonFinite"

fun fsub :: "fval \<Rightarrow> fval \<Rightarrow> fval" where
  "fsub (Fin a) (Fin b) = Fin (a - b)"
| "fsub _ _ = NonFinite"

fun fmul :: "fval \<Rightarrow> fval \<Rightarrow> fval" where
  "fmul (Fin a) (Fin b) = Fin (a * b)"
| "fmul _ _ = NonFinite"

text \<open>NumPy division of two finite numbers, and of an array entry by a finite number.\<close>

definition np_div :: "real \<Rightarrow> real \<Rightarrow> fval" where
  "np_div a b = (if b = 0 then NonFinite else Fin (a / b))"

fun fdiv :: "fval \<Rightarrow> real \<Rightarrow> fval" where
  "fdiv (Fin a) b = np_div a b"
| "fdiv NonFinite b = NonFinite"

text \<open>
  The test \<open>s > s0\<close>. On \<open>nan\<close> NumPy answers False and on \<open>inf\<close> True; the model
  answers False on \<open>NonFinite\<close>. The branch taken there has no effect on the term,
  which multiplies \<open>s\<close> back in and is non-finite for either value of \<open>mu\<close>.
\<close>

fun fgt :: "fval \<Rightarrow> real \<Rightarrow> bool" where
  "fgt (Fin a) b = (a > b)"
| "fgt NonFinite b = False"

text \<open>Python's \<open>int(x)\<close> on a float: truncation towards zero.\<close>

definition py_int :: "real \<Rightarrow> int" where
  "py_int r = (if 0 \<le> r then \<lfloor>r\<rfloor> else \<lceil>r\<rceil>)"

text \<open>
  \<open>np.linspace(start, stop, num)\<close> for \<open>num \<ge> 0\<close>: \<open>num\<close> evenly spaced samples,
  both ends included; a single sample is \<open>start\<close>.
\<close>

definition linspace :: "real \<Rightarrow> real \<Rightarrow> nat \<Rightarrow> real list" where
  "linspace start stop num =
     (if num = 1 then [start]
      else map (\<lambda>i. start + real i * ((stop - start) / real (num - 1))) [0..<num])"

subsection \<open>Parameters (cell 8)\<close>

text \<open>
  The literals of the parameter cell are the fields of a record, so that the claims can
  be stated for every parameter choice; \<open>reference_config\<close> holds the notebook's values.
  \<open>u0\<close> is the literal \<open>2e-2\<close> of the boundary-condition cell.

  \<open>time_steps\<close> is the integer that the cell computes as \<open>int(total_time/del_T)\<close>. The
  cell truncates the rounded double quotient, which is not a function of the exact
  quotient (\<open>0.3/0.1\<close> is \<open>2.9999999999999996\<close> and gives 2), so the result is a
  field of the record and not recomputed: a record describes the notebook when its
  \<open>time_steps\<close> is the integer the cell computes from its \<open>total_time\<close> and
  \<open>del_T\<close>, as \<open>int(15/.1) = 150\<close> in \<open>reference_config\<close>. The division itself
  raises when \<open>del_T\<close> is zero; \<open>simulate\<close> below keeps that failure.
\<close>

record config =
  rho :: real
  Young_modulus :: real
  nu :: real
  s0 :: real
  total_time :: real
  del_T :: real
  time_steps :: int
  bar_length :: real
  number_of_elements :: nat
  vol :: real
  u0 :: real

definition reference_config :: config where
  "reference_config =
     \<lparr> rho = 8 / 10 ^ 6, Young_modulus = 1957855 / 100, nu = 3 / 10, s0 = 2 / 100,
       total_time = 15, del_T = 1 / 10, time_steps = 150, bar_length = 15,
       number_of_elements = 7,
       vol = 1, u0 = 2 / 100 \<rparr>"

definition K :: "config \<Rightarrow> real" where
  "K cfg = Young_modulus cfg / (3 * (1 - 2 * nu cfg))"

definition nx :: "config \<Rightarrow> nat" where
  "nx cfg = number_of_elements cfg"

definition delta_x :: "config \<Rightarrow> real" where
  "delta_x cfg = bar_length cfg / real (number_of_elements cfg)"

definition nodes :: "config \<Rightarrow> real list" where
  "nodes cfg = linspace (- bar_length cfg / 2) (bar_length cfg / 2) (number_of_elements cfg)"

definition horizon :: "config \<Rightarrow> real" where
  "horizon cfg = delta_x cfg * (3014 / 1000)"

definition body_force :: real where
  "body_force = 98 / 10 ^ 10"

subsection \<open>Boundary conditions (cell 12)\<close>

definition u_applied_of :: "real \<Rightarrow> nat \<Rightarrow> real list" where
  "u_applied_of u ts =
     (let u_applied_05 = linspace u u (ts div 3);
          u_applied_510 = linspace (- u) (- u) (ts div 3);
          u_applied_1015 = linspace 0 0 (ts div 3)
      in u_applied_05 @ u_applied_510 @ u_applied_1015)"

definition u_applied :: "config \<Rightarrow> real list" where
  "u_applied cfg = u_applied_of (u0 cfg) (nat (time_steps cfg))"

subsection \<open>Displacement calculations (cell 14)\<close>

record sim_state =
  u_vector_solution :: "fval list list"
  u_current :: "fval list"
  u_future :: "fval list"
  u_previous :: "fval list"
  acceleration :: "fval option"

definition start_position :: "config \<Rightarrow> real" where
  "start_position cfg = - bar_length cfg / 2"

definition end_position :: "config \<Rightarrow> real" where
  "end_position cfg = bar_length cfg / 2"

definition in_boundary_layer :: "config \<Rightarrow> nat \<Rightarrow> bool" where
  "in_boundary_layer cfg i =
     (\<bar>nodes cfg ! i - start_position cfg\<bar> \<le> horizon cfg
      \<or> \<bar>nodes cfg ! i - end_position cfg\<bar> \<le> horizon cfg)"

text \<open>
  The loop \<open>for i in range(len(nodes))\<close> that writes \<open>u_applied[n]\<close> into the fresh
  array \<open>node_values\<close>; the read of \<open>u_applied[n]\<close> happens only for a point of the
  boundary layer.
\<close>

fun bc_loop :: "config \<Rightarrow> nat \<Rightarrow> nat list \<Rightarrow> real list \<Rightarrow> error + real list" where
  "bc_loop cfg n [] node_values = Inr node_values"
| "bc_loop cfg n (i # is) node_values =
     (if in_boundary_layer cfg i
      then (if n < length (u_applied cfg)
            then bc_loop cfg n is (node_values[i := u_applied cfg ! n])
            else Inl IndexError)
      else bc_loop cfg n is node_values)"

definition node_values_at :: "config \<Rightarrow> nat \<Rightarrow> error + real list" where
  "node_values_at cfg n = bc_loop cfg n [0..<length (nodes cfg)] (replicate (nx cfg) 0)"

text \<open>
  \<open>tree.query_ball_point(nodes_coords[x], horizon)\<close>: the indices of the points in the
  closed ball. The second coordinate of every point is \<open>1.0\<close> (\<open>np.ones_like\<close>). Only
  the length of the answer is used by the loop below.
\<close>

definition euclid :: "real \<times> real \<Rightarrow> real \<times> real \<Rightarrow> real" where
  "euclid a b = sqrt ((fst a - fst b)\<^sup>2 + (snd a - snd b)\<^sup>2)"

definition neighbor_ids :: "config \<Rightarrow> nat \<Rightarrow> nat list" where
  "neighbor_ids cfg x =
     filter (\<lambda>j. euclid (nodes cfg ! j, 1) (nodes cfg ! x, 1) \<le> horizon cfg) [0..<nx cfg]"

text \<open>
  The quantities of one pass of \<open>for p in range(len(neighbor_ids))\<close> for the point
  \<open>x\<close>. The neighbour's coordinates go through \<open>int(...)\<close>, the point's own do not.
  \<open>ids\<close> is \<open>np.arange(len(nodes))\<close>, so \<open>xp_index\<close> is \<open>p\<close> and \<open>xi_index\<close> is \<open>x\<close>.
  The loop position \<open>p\<close> stays below the number of points in the ball, which is at
  most \<open>nx\<close> (\<open>length_neighbor_ids_le\<close> below), so every array read of the pass is
  in range.
\<close>

definition ksi :: "config \<Rightarrow> nat \<Rightarrow> nat \<Rightarrow> real" where
  "ksi cfg p x =
     (let xp_locx = real_of_int (py_int (nodes cfg ! p));
          xp_locy = real_of_int (py_int 1);
          xi_locx = nodes cfg ! x;
          xi_locy = 1
      in sqrt ((xp_locx - xi_locx)\<^sup>2 + (xp_locy - xi_locy)\<^sup>2))"

definition eta :: "real list \<Rightarrow> nat \<Rightarrow> nat \<Rightarrow> real" where
  "eta node_values p x = node_values ! p - node_values ! x"

definition stretch :: "config \<Rightarrow> real list \<Rightarrow> nat \<Rightarrow> nat \<Rightarrow> fval" where
  "stretch cfg node_values p x =
     np_div (\<bar>ksi cfg p x + eta node_values p x\<bar> - \<bar>ksi cfg p x\<bar>) \<bar>ksi cfg p x\<bar>"

definition mu :: "config \<Rightarrow> real list \<Rightarrow> nat \<Rightarrow> nat \<Rightarrow> real" where
  "mu cfg node_values p x = (if fgt (stretch cfg node_values p x) (s0 cfg) then 0 else 1)"

definition c :: "config \<Rightarrow> real" where
  "c cfg = (18 * K cfg) / (pi * horizon cfg ^ 4)"

text \<open>The bond term \<open>(((ksi+eta)/|ksi+eta|) * c * s * mu) * vol\<close>.\<close>

definition bond_force :: "config \<Rightarrow> real list \<Rightarrow> nat \<Rightarrow> nat \<Rightarrow> fval" where
  "bond_force cfg node_values p x =
     fmul (fmul (fmul (fmul
       (np_div (ksi cfg p x + eta node_values p x) \<bar>ksi cfg p x + eta node_values p x\<bar>)
       (Fin (c cfg)))
       (stretch cfg node_values p x))
       (Fin (mu cfg node_values p x)))
       (Fin (vol cfg))"

text \<open>
  The inner loop, threading \<open>sum_term\<close> and the variable \<open>acceleration\<close>, which is
  assigned inside the loop after the \<open>continue\<close> of the self pair.
\<close>

fun p_loop :: "config \<Rightarrow> real list \<Rightarrow> nat \<Rightarrow> nat list \<Rightarrow> fval \<times> fval option
                 \<Rightarrow> error + fval \<times> fval option" where
  "p_loop cfg node_values x [] sa = Inr sa"
| "p_loop cfg node_values x (p # ps) (sum_term, acc) =
     (if p = x then p_loop cfg node_values x ps (sum_term, acc)
      else if pi * horizon cfg ^ 4 = 0 then Inl ZeroDivisionError
      else
        (let sum_term' = fadd (fadd sum_term (bond_force cfg node_values p x)) (Fin body_force);
             acc' = fdiv sum_term' (rho cfg)
         in p_loop cfg node_values x ps (sum_term', Some acc')))"

text \<open>
  One pass of \<open>for x in range(nx)\<close> (with the single pass \<open>y = 0\<close> of the loop over
  \<open>range(ny)\<close>, \<open>ny = 1\<close>): the inner loop, then the central-difference update of
  \<open>u_vector_at_future_time_step[x, y]\<close> and the write of
  \<open>u_vector_solution[n, x, y]\<close>.
\<close>

definition node_iter :: "config \<Rightarrow> nat \<Rightarrow> real list \<Rightarrow> nat \<Rightarrow> sim_state \<Rightarrow> error + sim_state" where
  "node_iter cfg n node_values x st =
     (case p_loop cfg node_values x [0..<length (neighbor_ids cfg x)] (Fin 0, acceleration st) of
        Inl e \<Rightarrow> Inl e
      | Inr (sum_term, acc) \<Rightarrow>
          (case acc of
             None \<Rightarrow> Inl NameError
           | Some a \<Rightarrow>
               Inr (st\<lparr> acceleration := Some a,
                        u_future := (u_future st)[x :=
                          fsub (fadd (fmul a (Fin ((del_T cfg)\<^sup>2)))
                                     (fmul (Fin 2) (u_current st ! x)))
                               (u_previous st ! x)],
                        u_vector_solution := (u_vector_solution st)[n :=
                          (u_vector_solution st ! n)[x := u_current st ! x]] \<rparr>)))"

fun x_loop :: "config \<Rightarrow> nat \<Rightarrow> real list \<Rightarrow> nat list \<Rightarrow> sim_state \<Rightarrow> error + sim_state" where
  "x_loop cfg n node_values [] st = Inr st"
| "x_loop cfg n node_values (x # xs) st =
     (case node_iter cfg n node_values x st of
        Inl e \<Rightarrow> Inl e
      | Inr st' \<Rightarrow> x_loop cfg n node_values xs st')"

text \<open>One pass of \<open>for n in range(0, time_steps)\<close>, ending with the two \<open>.copy()\<close>s.\<close>

definition time_step :: "config \<Rightarrow> nat \<Rightarrow> sim_state \<Rightarrow> error + sim_state" where
  "time_step cfg n st =
     (case node_values_at cfg n of
        Inl e \<Rightarrow> Inl e
      | Inr node_values \<Rightarrow>
          (case x_loop cfg n node_values [0..<nx cfg] st of
             Inl e \<Rightarrow> Inl e
           | Inr st' \<Rightarrow> Inr (st'\<lparr> u_previous := u_current st', u_current := u_future st' \<rparr>)))"

fun time_loop :: "config \<Rightarrow> nat list \<Rightarrow> sim_state \<Rightarrow> error + sim_state" where
  "time_loop cfg [] st = Inr st"
| "time_loop cfg (n # ns) st =
     (case time_step cfg n st of
        Inl e \<Rightarrow> Inl e
      | Inr st' \<Rightarrow> time_loop cfg ns st')"

definition initial_state :: "config \<Rightarrow> sim_state" where
  "initial_state cfg =
     \<lparr> u_vector_solution = replicate (nat (time_steps cfg)) (replicate (nx cfg) (Fin 0)),
       u_current = replicate (nx cfg) (Fin 0),
       u_future = replicate (nx cfg) (Fin 0),
       u_previous = replicate (nx cfg) (Fin 0),
       acceleration = None \<rparr>"

text \<open>
  The whole notebook up to the result cell. The divisions of the parameter cell are
  Python divisions; a negative \<open>time_steps\<close> makes \<open>np.linspace\<close> raise.
\<close>

definition simulate :: "config \<Rightarrow> error + sim_state" where
  "simulate cfg =
     (if 3 * (1 - 2 * nu cfg) = 0 \<or> del_T cfg = 0 \<or> number_of_elements cfg = 0
      then Inl ZeroDivisionError
      else if time_steps cfg div 3 < 0 then Inl ValueError
      else time_loop cfg [0..<nat (time_steps cfg)] (initial_state cfg))"

section \<open>Notions used by the claims\<close>

text \<open>
  The definitions of this section are not code of the notebook. They name what the
  loops compute, so that the claims can be stated, and the concrete configurations and
  states at which the claims are evaluated.
\<close>

subsection \<open>What the loops compute\<close>

text \<open>
  The content of \<open>node_values\<close> after the boundary loop of a step whose boundary value
  is \<open>v\<close>.
\<close>

definition node_values_of :: "config \<Rightarrow> real \<Rightarrow> real list" where
  "node_values_of cfg v = map (\<lambda>i. if in_boundary_layer cfg i then v else 0) [0..<nx cfg]"

text \<open>
  The loop positions \<open>p\<close> whose term the inner loop adds for the point \<open>x\<close>: every
  position below the number of points in the ball around \<open>x\<close>, except \<open>x\<close> itself.
\<close>

definition partners :: "config \<Rightarrow> nat \<Rightarrow> nat list" where
  "partners cfg x = filter (\<lambda>p. p \<noteq> x) [0..<length (neighbor_ids cfg x)]"

text \<open>\<open>sum_term\<close> after the terms of the positions \<open>ps\<close>, and the acceleration of a point.\<close>

definition sum_term_of :: "config \<Rightarrow> real list \<Rightarrow> nat \<Rightarrow> nat list \<Rightarrow> fval \<Rightarrow> fval" where
  "sum_term_of cfg nv x ps s =
     fold (\<lambda>p s. fadd (fadd s (bond_force cfg nv p x)) (Fin body_force)) ps s"

definition acc_of :: "config \<Rightarrow> real list \<Rightarrow> nat \<Rightarrow> fval" where
  "acc_of cfg nv x = fdiv (sum_term_of cfg nv x (partners cfg x) (Fin 0)) (rho cfg)"


text \<open>The two writes that end a pass of the loop over the points.\<close>

definition central_difference :: "config \<Rightarrow> fval \<Rightarrow> fval \<Rightarrow> fval \<Rightarrow> fval" where
  "central_difference cfg a u_cur u_prev =
     fsub (fadd (fmul a (Fin ((del_T cfg)\<^sup>2))) (fmul (Fin 2) u_cur)) u_prev"

definition node_update :: "config \<Rightarrow> nat \<Rightarrow> nat \<Rightarrow> fval \<Rightarrow> sim_state \<Rightarrow> sim_state" where
  "node_update cfg n x a st =
     st\<lparr> acceleration := Some a,
         u_future := (u_future st)[x := central_difference cfg a (u_current st ! x) (u_previous st ! x)],
         u_vector_solution := (u_vector_solution st)[n := (u_vector_solution st ! n)[x := u_current st ! x]] \<rparr>"

text \<open>
  The value of the variable \<open>acceleration\<close> when the loop over the points, started in
  the state \<open>st\<close>, has finished the point \<open>i\<close>: the acceleration used for \<open>i\<close>.
  \<open>None\<close> when the step fails before that.
\<close>

definition acc_var :: "config \<Rightarrow> nat \<Rightarrow> real list \<Rightarrow> sim_state \<Rightarrow> nat \<Rightarrow> fval option" where
  "acc_var cfg n nv st i =
     (case x_loop cfg n nv [0..<Suc i] st of Inl e \<Rightarrow> None | Inr st' \<Rightarrow> acceleration st')"

definition accel_at :: "config \<Rightarrow> nat \<Rightarrow> sim_state \<Rightarrow> nat \<Rightarrow> fval option" where
  "accel_at cfg n st i =
     (case node_values_at cfg n of
        Inl e \<Rightarrow> None
      | Inr node_values \<Rightarrow>
          (case x_loop cfg n node_values [0..<Suc i] st of
             Inl e \<Rightarrow> None
           | Inr st' \<Rightarrow> acceleration st'))"

text \<open>The shapes the arrays have throughout a run, for the step \<open>n\<close>.\<close>

definition well_formed :: "config \<Rightarrow> nat \<Rightarrow> sim_state \<Rightarrow> bool" where
  "well_formed cfg n st \<longleftrightarrow>
     length (u_current st) = nx cfg \<and> length (u_previous st) = nx cfg \<and>
     length (u_future st) = nx cfg \<and> n < length (u_vector_solution st) \<and>
     length (u_vector_solution st ! n) = nx cfg"

text \<open>The shapes of all arrays, as the notebook allocates them.\<close>

definition array_shapes :: "config \<Rightarrow> sim_state \<Rightarrow> bool" where
  "array_shapes cfg st \<longleftrightarrow>
     length (u_current st) = nx cfg \<and> length (u_previous st) = nx cfg \<and>
     length (u_future st) = nx cfg \<and>
     length (u_vector_solution st) = nat (time_steps cfg) \<and>
     list_all (\<lambda>row. length row = nx cfg) (u_vector_solution st)"




subsection \<open>The field of the specification\<close>

text \<open>
  Following the specification's words (section 4.5), not the code: the current
  displacement field with the boundary value of the step written over it at the
  boundary-layer points. It is compared with \<open>node_values\<close> in C1.
\<close>

definition prescribed_current :: "config \<Rightarrow> nat \<Rightarrow> sim_state \<Rightarrow> fval list" where
  "prescribed_current cfg n st =
     map (\<lambda>i. if in_boundary_layer cfg i then Fin (u_applied cfg ! n) else u_current st ! i)
       [0..<nx cfg]"

subsection \<open>Motion under the body force alone\<close>





subsection \<open>Concrete configurations and states\<close>

text \<open>
  A bar of two points with four time steps of length one; its state after step 0.
  Both points lie in the boundary layer.
\<close>

definition two_point_config :: config where
  "two_point_config =
     reference_config\<lparr> number_of_elements := 2, total_time := 4, del_T := 1, time_steps := 4 \<rparr>"

definition two_point_after_step0 :: sim_state where
  "two_point_after_step0 =
     \<lparr> u_vector_solution = [[Fin 0, Fin 0], [Fin 0, Fin 0], [Fin 0, Fin 0], [Fin 0, Fin 0]],
       u_current = [Fin (49 / 40000), Fin (49 / 40000)],
       u_future = [Fin (49 / 40000), Fin (49 / 40000)],
       u_previous = [Fin 0, Fin 0],
       acceleration = Some (Fin (49 / 40000)) \<rparr>"


text \<open>
  The two-point bar with four time steps of length one half (\<open>int(2/0.5) = 4\<close>), and
  its states after the steps 0 and 1 and after the step 2.
\<close>

definition half_step_config :: config where
  "half_step_config =
     reference_config\<lparr> number_of_elements := 2, total_time := 2, del_T := 1 / 2, time_steps := 4 \<rparr>"

definition half_step_after_step1 :: sim_state where
  "half_step_after_step1 =
     \<lparr> u_vector_solution =
         [[Fin 0, Fin 0], [Fin (49 / 160000), Fin (49 / 160000)], [Fin 0, Fin 0], [Fin 0, Fin 0]],
       u_current = [Fin (147 / 160000), Fin (147 / 160000)],
       u_future = [Fin (147 / 160000), Fin (147 / 160000)],
       u_previous = [Fin (49 / 160000), Fin (49 / 160000)],
       acceleration = Some (Fin (49 / 40000)) \<rparr>"

definition half_step_after_step2 :: sim_state where
  "half_step_after_step2 =
     \<lparr> u_vector_solution =
         [[Fin 0, Fin 0], [Fin (49 / 160000), Fin (49 / 160000)],
          [Fin (147 / 160000), Fin (147 / 160000)], [Fin 0, Fin 0]],
       u_current = [Fin (147 / 80000), Fin (147 / 80000)],
       u_future = [Fin (147 / 80000), Fin (147 / 80000)],
       u_previous = [Fin (147 / 160000), Fin (147 / 160000)],
       acceleration = Some (Fin (49 / 40000)) \<rparr>"

text \<open>A single point; and two points on a bar of length zero, whose horizon is zero.\<close>

definition single_point_config :: config where
  "single_point_config =
     reference_config\<lparr> number_of_elements := 1, total_time := 3, del_T := 1, time_steps := 3 \<rparr>"

definition point_bar_config :: config where
  "point_bar_config =
     reference_config\<lparr> number_of_elements := 2, bar_length := 0, total_time := 3, del_T := 1,
       time_steps := 3 \<rparr>"

text \<open>
  A bar of three points and length one, with three time steps of length one: the points
  are at \<open>-0.5\<close>, \<open>0\<close> and \<open>0.5\<close>, and \<open>int(-0.5) = int(0.5) = 0\<close> is the coordinate of
  the middle point. Its state after step 0.
\<close>

definition three_point_config :: config where
  "three_point_config =
     reference_config\<lparr> number_of_elements := 3, bar_length := 1, total_time := 3, del_T := 1,
       time_steps := 3 \<rparr>"





text \<open>The states of the notebook's own run after step 0 and after step 1.\<close>

definition reference_after_step0 :: sim_state where
  "reference_after_step0 =
     (case time_step reference_config 0 (initial_state reference_config) of
        Inl e \<Rightarrow> initial_state reference_config
      | Inr st \<Rightarrow> st)"

definition reference_after_step1 :: sim_state where
  "reference_after_step1 =
     (case time_step reference_config 1 reference_after_step0 of
        Inl e \<Rightarrow> reference_after_step0
      | Inr st \<Rightarrow> st)"

section \<open>Properties of the loops\<close>

subsection \<open>Arithmetic of the embedding\<close>

lemma euclid_line: "euclid (a, 1) (b, 1) = \<bar>a - b\<bar>"
  by (simp add: euclid_def)

lemma ksi_abs: "ksi cfg p x = \<bar>real_of_int (py_int (nodes cfg ! p)) - nodes cfg ! x\<bar>"
  by (simp add: ksi_def py_int_def)

lemma ceiling_neg_half: "\<lceil>- (1 / 2 :: real)\<rceil> = 0"
  by (rule ceiling_unique) simp_all

lemma upt_7: "[0..<7] = [0, 1, 2, 3, 4, 5, 6]"
  by (simp add: upt_conv_Cons)

lemma replicate_2: "replicate 2 a = [a, a]"
  by (simp add: numeral_2_eq_2)

lemma replicate_3: "replicate 3 a = [a, a, a]"
  by (simp add: eval_nat_numeral)

lemma replicate_4: "replicate 4 a = [a, a, a, a]"
  by (simp add: eval_nat_numeral)

lemma replicate_7: "replicate 7 a = [a, a, a, a, a, a, a]"
  by (simp add: eval_nat_numeral)

lemma length_linspace: "length (linspace a b n) = n"
  by (simp add: linspace_def)

lemma linspace_const: "linspace a a n = replicate n a"
  by (cases "n = 1") (simp_all add: linspace_def map_replicate_const)

lemma linspace_nth:
  "i < n \<Longrightarrow> n \<noteq> 1 \<Longrightarrow> linspace a b n ! i = a + real i * ((b - a) / real (n - 1))"
  by (simp add: linspace_def)

lemma linspace_first: "0 < n \<Longrightarrow> linspace a b n ! 0 = a"
  by (cases "n = 1") (simp_all add: linspace_def)

lemma length_nodes: "length (nodes cfg) = nx cfg"
  by (simp add: nodes_def nx_def length_linspace)

subsection \<open>The boundary-condition sequence\<close>

lemma u_applied_of_replicate:
  "u_applied_of u ts = replicate (ts div 3) u @ replicate (ts div 3) (- u) @ replicate (ts div 3) 0"
  by (simp add: u_applied_of_def linspace_const)

lemma length_u_applied_of: "length (u_applied_of u ts) = 3 * (ts div 3)"
  by (simp add: u_applied_of_replicate)

lemma length_u_applied: "length (u_applied cfg) = 3 * (nat (time_steps cfg) div 3)"
  by (simp add: u_applied_def length_u_applied_of)


lemma u_applied_nth:
  assumes "n < length (u_applied cfg)"
  shows "u_applied cfg ! n =
     (if n < nat (time_steps cfg) div 3 then u0 cfg
      else if n < 2 * (nat (time_steps cfg) div 3) then - u0 cfg else 0)"
proof -
  define k where "k = nat (time_steps cfg) div 3"
  have ua: "u_applied cfg = replicate k (u0 cfg) @ replicate k (- u0 cfg) @ replicate k 0"
    by (simp add: u_applied_def u_applied_of_replicate k_def)
  have n: "n < 3 * k" using assms by (simp add: ua)
  consider "n < k" | "k \<le> n" "n < 2 * k" | "2 * k \<le> n" by linarith
  then have "u_applied cfg ! n = (if n < k then u0 cfg else if n < 2 * k then - u0 cfg else 0)"
  proof cases
    case 1
    then show ?thesis by (simp add: ua nth_append)
  next
    case 2
    then have "n - k < k" by linarith
    with 2 show ?thesis by (simp add: ua nth_append)
  next
    case 3
    then have "n - k - k < k" "\<not> n - k < k" using n by linarith+
    with 3 show ?thesis by (simp add: ua nth_append)
  qed
  then show ?thesis by (simp add: k_def)
qed


subsection \<open>The boundary loop\<close>

text \<open>
  The loop fails exactly when it has to read \<open>u_applied[n]\<close> and cannot; otherwise it
  fills the boundary layer.
\<close>

lemma bc_loop_in_range:
  "n < length (u_applied cfg) \<Longrightarrow>
   bc_loop cfg n js nv =
     Inr (fold (\<lambda>i nv. if in_boundary_layer cfg i then nv[i := u_applied cfg ! n] else nv) js nv)"
  by (induction js arbitrary: nv) simp_all

lemma bc_loop_out_of_range:
  "length (u_applied cfg) \<le> n \<Longrightarrow>
   bc_loop cfg n js nv = (if \<exists>i\<in>set js. in_boundary_layer cfg i then Inl IndexError else Inr nv)"
  by (induction js arbitrary: nv) auto

lemma fold_fill_length:
  "length (fold (\<lambda>i nv. if P i then nv[i := v] else nv) js nv) = length nv"
  by (induction js arbitrary: nv) simp_all

lemma fold_fill_nth:
  "i < length nv \<Longrightarrow>
   fold (\<lambda>i nv. if P i then nv[i := v] else nv) js nv ! i = (if i \<in> set js \<and> P i then v else nv ! i)"
proof (induction js arbitrary: nv)
  case Nil
  show ?case by simp
next
  case (Cons a js)
  then show ?case by (cases "a = i") (auto simp: nth_list_update)
qed

lemma fold_fill_upt:
  "fold (\<lambda>i nv. if P i then nv[i := v] else nv) [0..<m] (replicate m (0::real))
     = map (\<lambda>i. if P i then v else 0) [0..<m]"
  by (rule nth_equalityI) (simp_all add: fold_fill_length fold_fill_nth)

lemma node_values_at_eq:
  "node_values_at cfg n =
     (if n < length (u_applied cfg) then Inr (node_values_of cfg (u_applied cfg ! n))
      else if \<exists>i<nx cfg. in_boundary_layer cfg i then Inl IndexError
      else Inr (replicate (nx cfg) 0))"
  by (auto simp: node_values_at_def length_nodes bc_loop_in_range bc_loop_out_of_range
        fold_fill_upt node_values_of_def)

lemma node_values_of_no_boundary:
  "\<not> (\<exists>i<nx cfg. in_boundary_layer cfg i) \<Longrightarrow> node_values_of cfg v = replicate (nx cfg) 0"
  by (auto simp: node_values_of_def intro!: nth_equalityI)

lemma node_values_at_InrD:
  assumes "node_values_at cfg n = Inr nv"
  shows "nv = node_values_of cfg (u_applied cfg ! n)"
  using assms by (auto simp: node_values_at_eq node_values_of_no_boundary split: if_splits)


lemma in_boundary_layer_first:
  assumes "0 < number_of_elements cfg" and "0 \<le> bar_length cfg"
  shows "in_boundary_layer cfg 0"
proof -
  have "nodes cfg ! 0 = start_position cfg"
    using assms(1) by (simp add: nodes_def start_position_def linspace_first)
  moreover have "0 \<le> horizon cfg"
    using assms by (simp add: horizon_def delta_x_def)
  ultimately show ?thesis by (simp add: in_boundary_layer_def)
qed

subsection \<open>The inner loop\<close>

text \<open>
  With a zero horizon the first bond term raises on the division that computes \<open>c\<close>;
  otherwise the loop is a fold over the partners of the point.
\<close>

lemma p_loop_horizon_zero:
  "horizon cfg = 0 \<Longrightarrow>
   p_loop cfg nv x ps sa = (if \<exists>p\<in>set ps. p \<noteq> x then Inl ZeroDivisionError else Inr sa)"
  by (induction ps arbitrary: sa) (auto split: prod.splits)

lemma p_loop_eq:
  "horizon cfg \<noteq> 0 \<Longrightarrow>
   p_loop cfg nv x ps (s, a) =
     Inr (sum_term_of cfg nv x (filter (\<lambda>p. p \<noteq> x) ps) s,
          if filter (\<lambda>p. p \<noteq> x) ps = [] then a
          else Some (fdiv (sum_term_of cfg nv x (filter (\<lambda>p. p \<noteq> x) ps) s) (rho cfg)))"
proof (induction ps arbitrary: s a)
  case Nil
  show ?case by (simp add: sum_term_of_def)
next
  case (Cons p ps)
  show ?case
  proof (cases "p = x")
    case True
    with Cons show ?thesis by simp
  next
    case False
    with Cons show ?thesis
      by (simp add: sum_term_of_def Let_def)
  qed
qed

subsection \<open>The loop over the points\<close>

lemma node_iter_eq:
  "horizon cfg \<noteq> 0 \<Longrightarrow>
   node_iter cfg n nv x st =
     (if partners cfg x = []
      then (case acceleration st of None \<Rightarrow> Inl NameError | Some a \<Rightarrow> Inr (node_update cfg n x a st))
      else Inr (node_update cfg n x (acc_of cfg nv x) st))"
  by (simp add: node_iter_def p_loop_eq partners_def acc_of_def node_update_def
        central_difference_def split: option.splits)

lemma node_iter_horizon_zero:
  "horizon cfg = 0 \<Longrightarrow>
   node_iter cfg n nv x st =
     (if partners cfg x \<noteq> [] then Inl ZeroDivisionError
      else (case acceleration st of None \<Rightarrow> Inl NameError | Some a \<Rightarrow> Inr (node_update cfg n x a st)))"
  by (auto simp: node_iter_def p_loop_horizon_zero partners_def node_update_def
        central_difference_def filter_empty_conv split: option.splits)

lemma node_iter_InrD:
  assumes "node_iter cfg n nv x st = Inr st'"
  shows "\<exists>a. acceleration st' = Some a \<and> st' = node_update cfg n x a st"
proof (cases "horizon cfg = 0")
  case True
  with assms show ?thesis
    by (auto simp: node_iter_horizon_zero node_update_def split: if_splits option.splits)
next
  case False
  with assms show ?thesis
    by (auto simp: node_iter_eq node_update_def split: if_splits option.splits)
qed

lemma x_loop_append:
  "x_loop cfg n nv (xs @ ys) st =
     (case x_loop cfg n nv xs st of Inl e \<Rightarrow> Inl e | Inr st' \<Rightarrow> x_loop cfg n nv ys st')"
  by (induction xs arbitrary: st) (simp_all split: sum.splits)

lemma x_loop_prefix_ok:
  "x_loop cfg n nv [0..<j] st = Inr sj \<Longrightarrow> i \<le> j \<Longrightarrow> \<exists>si. x_loop cfg n nv [0..<i] st = Inr si"
proof (induction j arbitrary: sj)
  case 0
  then show ?case by simp
next
  case (Suc j)
  show ?case
  proof (cases "i = Suc j")
    case True
    with Suc.prems show ?thesis by blast
  next
    case False
    with Suc.prems have "i \<le> j" by simp
    moreover from Suc.prems(1) obtain s where "x_loop cfg n nv [0..<j] st = Inr s"
      by (auto simp: x_loop_append split: sum.splits)
    ultimately show ?thesis using Suc.IH by blast
  qed
qed

lemma x_loop_effect:
  assumes "x_loop cfg n nv [0..<j] st = Inr sj" and "j \<le> nx cfg" and "well_formed cfg n st"
  shows "u_current sj = u_current st \<and> u_previous sj = u_previous st
       \<and> length (u_future sj) = nx cfg
       \<and> (\<forall>i<j. \<exists>a. acc_var cfg n nv st i = Some a
              \<and> u_future sj ! i = central_difference cfg a (u_current st ! i) (u_previous st ! i))
       \<and> length (u_vector_solution sj) = length (u_vector_solution st)
       \<and> (\<forall>m. m \<noteq> n \<longrightarrow> u_vector_solution sj ! m = u_vector_solution st ! m)
       \<and> length (u_vector_solution sj ! n) = nx cfg
       \<and> (\<forall>i<j. u_vector_solution sj ! n ! i = u_current st ! i)"
  using assms
proof (induction j arbitrary: sj)
  case 0
  then show ?case by (simp add: well_formed_def)
next
  case (Suc j)
  from Suc.prems(1) obtain s where s: "x_loop cfg n nv [0..<j] st = Inr s"
    and it: "node_iter cfg n nv j s = Inr sj"
    by (auto simp: x_loop_append split: sum.splits)
  from it obtain a where a: "acceleration sj = Some a" and sj: "sj = node_update cfg n j a s"
    using node_iter_InrD by blast
  have jn: "j < nx cfg" using Suc.prems(2) by simp
  have IH: "u_current s = u_current st" "u_previous s = u_previous st"
    "length (u_future s) = nx cfg"
    "\<forall>i<j. \<exists>a. acc_var cfg n nv st i = Some a
              \<and> u_future s ! i = central_difference cfg a (u_current st ! i) (u_previous st ! i)"
    "length (u_vector_solution s) = length (u_vector_solution st)"
    "\<forall>m. m \<noteq> n \<longrightarrow> u_vector_solution s ! m = u_vector_solution st ! m"
    "length (u_vector_solution s ! n) = nx cfg"
    "\<forall>i<j. u_vector_solution s ! n ! i = u_current st ! i"
    using Suc.IH[OF s _ Suc.prems(3)] jn by simp_all
  have nlen: "n < length (u_vector_solution s)"
    using IH(5) Suc.prems(3) by (simp add: well_formed_def)
  have accj: "acc_var cfg n nv st j = Some a"
    using Suc.prems(1) a by (simp add: acc_var_def)
  have fut: "\<forall>i<Suc j. \<exists>a. acc_var cfg n nv st i = Some a
              \<and> u_future sj ! i = central_difference cfg a (u_current st ! i) (u_previous st ! i)"
  proof (intro allI impI)
    fix i assume "i < Suc j"
    show "\<exists>a. acc_var cfg n nv st i = Some a
              \<and> u_future sj ! i = central_difference cfg a (u_current st ! i) (u_previous st ! i)"
    proof (cases "i = j")
      case True
      then show ?thesis using accj IH(1,2,3) jn by (simp add: sj node_update_def)
    next
      case False
      with \<open>i < Suc j\<close> have "i < j" by simp
      with IH(4) False show ?thesis by (simp add: sj node_update_def)
    qed
  qed
  have sol: "\<forall>i<Suc j. u_vector_solution sj ! n ! i = u_current st ! i"
  proof (intro allI impI)
    fix i assume "i < Suc j"
    show "u_vector_solution sj ! n ! i = u_current st ! i"
    proof (cases "i = j")
      case True
      then show ?thesis using IH(1,7) jn nlen by (simp add: sj node_update_def)
    next
      case False
      with \<open>i < Suc j\<close> have "i < j" by simp
      with IH(8) False nlen show ?thesis by (simp add: sj node_update_def)
    qed
  qed
  have rest: "u_current sj = u_current st" "u_previous sj = u_previous st"
    "length (u_future sj) = nx cfg"
    "length (u_vector_solution sj) = length (u_vector_solution st)"
    "\<forall>m. m \<noteq> n \<longrightarrow> u_vector_solution sj ! m = u_vector_solution st ! m"
    "length (u_vector_solution sj ! n) = nx cfg"
    using IH nlen by (simp_all add: sj node_update_def)
  show ?case using rest fut sol by blast
qed

lemma acc_var_fresh:
  assumes ok: "x_loop cfg n nv [0..<Suc i] st = Inr s" and p: "partners cfg i \<noteq> []"
  shows "acceleration s = Some (acc_of cfg nv i)"
proof -
  from ok obtain si where it: "node_iter cfg n nv i si = Inr s"
    by (auto simp: x_loop_append split: sum.splits)
  show ?thesis
  proof (cases "horizon cfg = 0")
    case True
    with it p show ?thesis by (simp add: node_iter_horizon_zero)
  next
    case False
    with it p show ?thesis by (auto simp: node_iter_eq node_update_def)
  qed
qed

lemma accel_at_acc_var:
  "accel_at cfg n st i = (case node_values_at cfg n of Inl e \<Rightarrow> None | Inr nv \<Rightarrow> acc_var cfg n nv st i)"
  by (simp only: accel_at_def acc_var_def)

subsection \<open>Bars of at least two points and positive length\<close>

text \<open>
  The horizon is \<open>3.014\<close> times \<open>L/N\<close> and the spacing of the points is \<open>L/(N-1)\<close>: for
  \<open>N \<ge> 2\<close> the second point lies within the horizon of the first, so that every point
  has a bond term and its acceleration is assigned before it is used.
\<close>

lemma neighbor_ids_mem:
  "j \<in> set (neighbor_ids cfg x) \<longleftrightarrow> j < nx cfg \<and> \<bar>nodes cfg ! j - nodes cfg ! x\<bar> \<le> horizon cfg"
  by (auto simp: neighbor_ids_def euclid_line)

lemma distinct_neighbor_ids: "distinct (neighbor_ids cfg x)"
  by (simp add: neighbor_ids_def)


lemma partners_nonempty_iff:
  "partners cfg x \<noteq> [] \<longleftrightarrow> (\<exists>p<length (neighbor_ids cfg x). p \<noteq> x)"
  by (auto simp: partners_def filter_empty_conv)


lemma horizon_pos:
  "0 < number_of_elements cfg \<Longrightarrow> 0 < bar_length cfg \<Longrightarrow> 0 < horizon cfg"
  by (simp add: horizon_def delta_x_def)

lemma first_two_are_neighbors:
  assumes N: "2 \<le> number_of_elements cfg" and L: "0 < bar_length cfg"
  shows "{0, 1} \<subseteq> set (neighbor_ids cfg 0)"
proof -
  let ?N = "number_of_elements cfg"
  let ?L = "bar_length cfg"
  have n1: "nodes cfg ! 1 - nodes cfg ! 0 = ?L / real (?N - 1)"
    using N by (simp add: nodes_def linspace_nth)
  have "real ?N \<le> (3014 / 1000) * real (?N - 1)"
    using N by (simp add: of_nat_diff)
  then have "1 / real (?N - 1) \<le> (3014 / 1000) / real ?N"
    using N by (simp add: field_simps)
  then have "?L * (1 / real (?N - 1)) \<le> ?L * ((3014 / 1000) / real ?N)"
    using L by (intro mult_left_mono) simp_all
  then have "?L / real (?N - 1) \<le> horizon cfg"
    by (simp add: horizon_def delta_x_def)
  moreover have "0 \<le> ?L / real (?N - 1)" using L by simp
  moreover have "0 < horizon cfg" using N L by (simp add: horizon_pos)
  ultimately show ?thesis
    using N n1 by (simp add: neighbor_ids_mem nx_def)
qed

lemma good_geometry:
  assumes N: "2 \<le> number_of_elements cfg" and L: "0 < bar_length cfg" and x: "x < nx cfg"
  shows "partners cfg x \<noteq> []"
proof (cases "x = 0")
  case True
  have "card {0, 1 :: nat} \<le> card (set (neighbor_ids cfg 0))"
    using first_two_are_neighbors[OF N L] by (intro card_mono) simp_all
  then have "2 \<le> length (neighbor_ids cfg 0)"
    by (simp add: distinct_card[OF distinct_neighbor_ids])
  then have "\<exists>p<length (neighbor_ids cfg 0). p \<noteq> 0"
    by (intro exI[of _ 1]) simp
  with True show ?thesis by (simp add: partners_nonempty_iff)
next
  case False
  have "0 < horizon cfg" using N L by (simp add: horizon_pos)
  then have "x \<in> set (neighbor_ids cfg x)"
    using x by (simp add: neighbor_ids_mem)
  then have "0 < length (neighbor_ids cfg x)"
    by (cases "neighbor_ids cfg x") simp_all
  with False show ?thesis
    by (auto simp: partners_nonempty_iff)
qed

lemma x_loop_good:
  assumes N: "2 \<le> number_of_elements cfg" and L: "0 < bar_length cfg"
  shows "j \<le> nx cfg \<Longrightarrow> \<exists>sj. x_loop cfg n nv [0..<j] st = Inr sj"
proof (induction j)
  case 0
  show ?case by simp
next
  case (Suc j)
  then obtain s where s: "x_loop cfg n nv [0..<j] st = Inr s" by auto
  have h: "horizon cfg \<noteq> 0" using horizon_pos[of cfg] N L by simp
  have "partners cfg j \<noteq> []" using good_geometry[OF N L] Suc.prems by simp
  then show ?case
    using s h by (simp add: x_loop_append node_iter_eq)
qed

lemma acc_var_good:
  assumes N: "2 \<le> number_of_elements cfg" and L: "0 < bar_length cfg" and i: "i < nx cfg"
  shows "acc_var cfg n nv st i = Some (acc_of cfg nv i)"
proof -
  obtain s where s: "x_loop cfg n nv [0..<i] st = Inr s"
    using x_loop_good[OF N L, of i n nv st] i by (auto simp: less_imp_le)
  have h: "horizon cfg \<noteq> 0" using horizon_pos[of cfg] N L by simp
  have "partners cfg i \<noteq> []" using good_geometry[OF N L i] .
  then show ?thesis
    using s h by (simp add: acc_var_def x_loop_append node_iter_eq node_update_def)
qed

lemma node_values_at_good:
  assumes N: "2 \<le> number_of_elements cfg" and L: "0 < bar_length cfg"
  shows "node_values_at cfg n =
     (if n < length (u_applied cfg) then Inr (node_values_of cfg (u_applied cfg ! n))
      else Inl IndexError)"
proof -
  have "in_boundary_layer cfg 0" using N L by (simp add: in_boundary_layer_first)
  moreover have "0 < nx cfg" using N by (simp add: nx_def)
  ultimately have "\<exists>i<nx cfg. in_boundary_layer cfg i" by blast
  then show ?thesis by (simp add: node_values_at_eq)
qed

subsection \<open>Time steps and the main loop\<close>

lemma time_step_InrD:
  assumes "time_step cfg n st = Inr st'"
  obtains nv s where "node_values_at cfg n = Inr nv" "x_loop cfg n nv [0..<nx cfg] st = Inr s"
    "st' = s\<lparr> u_previous := u_current s, u_current := u_future s \<rparr>"
  using assms by (auto simp: time_step_def split: sum.splits)

lemma time_step_good:
  assumes "2 \<le> number_of_elements cfg" and "0 < bar_length cfg"
  shows "time_step cfg n st =
     (if n < length (u_applied cfg)
      then (case x_loop cfg n (node_values_of cfg (u_applied cfg ! n)) [0..<nx cfg] st of
              Inl e \<Rightarrow> Inl e
            | Inr st' \<Rightarrow> Inr (st'\<lparr> u_previous := u_current st', u_current := u_future st' \<rparr>))
      else Inl IndexError)"
  by (simp add: time_step_def node_values_at_good[OF assms])

lemma time_step_good_ok:
  assumes "2 \<le> number_of_elements cfg" and "0 < bar_length cfg" and "n < length (u_applied cfg)"
  shows "\<exists>st'. time_step cfg n st = Inr st'"
proof -
  obtain s where "x_loop cfg n (node_values_of cfg (u_applied cfg ! n)) [0..<nx cfg] st = Inr s"
    using x_loop_good[OF assms(1,2) order_refl] by blast
  then show ?thesis
    using assms(3) by (simp add: time_step_good[OF assms(1,2)])
qed

lemma time_step_out_of_range:
  assumes "0 < number_of_elements cfg" and "0 \<le> bar_length cfg" and "length (u_applied cfg) \<le> n"
  shows "time_step cfg n st = Inl IndexError"
proof -
  have "in_boundary_layer cfg 0" using assms(1,2) by (rule in_boundary_layer_first)
  moreover have "0 < nx cfg" using assms(1) by (simp add: nx_def)
  ultimately have "\<exists>i<nx cfg. in_boundary_layer cfg i" by blast
  then show ?thesis using assms(3) by (simp add: time_step_def node_values_at_eq)
qed

lemma time_step_good_effect:
  assumes N: "2 \<le> number_of_elements cfg" and L: "0 < bar_length cfg"
    and n: "n < length (u_applied cfg)" and wf: "well_formed cfg n st"
  shows "\<exists>st'. time_step cfg n st = Inr st'
       \<and> u_current st' =
           map (\<lambda>i. central_difference cfg (acc_of cfg (node_values_of cfg (u_applied cfg ! n)) i)
                       (u_current st ! i) (u_previous st ! i)) [0..<nx cfg]
       \<and> u_previous st' = u_current st
       \<and> length (u_future st') = nx cfg
       \<and> u_vector_solution st' = (u_vector_solution st)[n := u_current st]"
proof -
  let ?nv = "node_values_of cfg (u_applied cfg ! n)"
  obtain s where s: "x_loop cfg n ?nv [0..<nx cfg] st = Inr s"
    using x_loop_good[OF N L order_refl] by blast
  let ?st' = "s\<lparr> u_previous := u_current s, u_current := u_future s \<rparr>"
  have step: "time_step cfg n st = Inr ?st'"
    using s n by (simp add: time_step_good[OF N L])
  note eff = x_loop_effect[OF s order_refl wf]
  have cur: "u_current ?st' =
           map (\<lambda>i. central_difference cfg (acc_of cfg ?nv i)
                       (u_current st ! i) (u_previous st ! i)) [0..<nx cfg]"
    using eff by (intro nth_equalityI) (auto simp: acc_var_good[OF N L])
  have row: "u_vector_solution s ! n = u_current st"
    using eff wf by (intro nth_equalityI) (simp_all add: well_formed_def)
  have "u_vector_solution s = (u_vector_solution st)[n := u_current st]"
  proof (rule nth_equalityI)
    show "length (u_vector_solution s) = length ((u_vector_solution st)[n := u_current st])"
      using eff by simp
  next
    fix m assume "m < length (u_vector_solution s)"
    then show "u_vector_solution s ! m = (u_vector_solution st)[n := u_current st] ! m"
      using eff row by (cases "m = n") simp_all
  qed
  then have sol: "u_vector_solution ?st' = (u_vector_solution st)[n := u_current st]"
    by simp
  show ?thesis using step cur sol eff by (intro exI[of _ ?st']) simp
qed

lemma well_formed_initial:
  "n < nat (time_steps cfg) \<Longrightarrow> well_formed cfg n (initial_state cfg)"
  by (simp add: well_formed_def initial_state_def)

lemma time_loop_append:
  "time_loop cfg (ns @ ms) st =
     (case time_loop cfg ns st of Inl e \<Rightarrow> Inl e | Inr st' \<Rightarrow> time_loop cfg ms st')"
  by (induction ns arbitrary: st) (simp_all split: sum.splits)

lemma time_loop_fails:
  "n \<in> set ns \<Longrightarrow> (\<And>st. isl (time_step cfg n st)) \<Longrightarrow> isl (time_loop cfg ns st)"
proof (induction ns arbitrary: st)
  case Nil
  then show ?case by simp
next
  case (Cons m ns)
  show ?case
  proof (cases "time_step cfg m st")
    case (Inl e)
    then show ?thesis by simp
  next
    case (Inr st')
    have "m \<noteq> n" using Inr Cons.prems(2)[of st] by auto
    with Cons.prems have "n \<in> set ns" by simp
    then have "isl (time_loop cfg ns st')" using Cons.IH Cons.prems(2) by blast
    with Inr show ?thesis by simp
  qed
qed

lemma time_loop_good_ok:
  assumes "2 \<le> number_of_elements cfg" and "0 < bar_length cfg"
  shows "j \<le> length (u_applied cfg) \<Longrightarrow> \<exists>s. time_loop cfg [0..<j] st = Inr s"
proof (induction j)
  case 0
  show ?case by simp
next
  case (Suc j)
  then obtain s where s: "time_loop cfg [0..<j] st = Inr s" by auto
  obtain s' where "time_step cfg j s = Inr s'"
    using time_step_good_ok[OF assms, of j s] Suc.prems by auto
  with s show ?case by (simp add: time_loop_append)
qed

text \<open>
  A run whose step count is not a multiple of three, on a bar of at least two points and
  positive length: the steps that can read their boundary value complete, the next one
  cannot read it.
\<close>

lemma simulate_index_error:
  assumes nd: "time_steps cfg mod 3 \<noteq> 0" and ts: "0 \<le> time_steps cfg"
    and N: "2 \<le> number_of_elements cfg" and L: "0 < bar_length cfg" and nu: "nu cfg \<noteq> 1 / 2"
  shows "(\<exists>s. time_loop cfg [0..<length (u_applied cfg)] (initial_state cfg) = Inr s)
       \<and> simulate cfg = Inl (if del_T cfg = 0 then ZeroDivisionError else IndexError)"
proof -
  let ?len = "length (u_applied cfg)"
  let ?ts = "nat (time_steps cfg)"
  have "0 < time_steps cfg mod 3" using nd by (simp add: less_le)
  then have "0 < nat (time_steps cfg mod 3)" by simp
  moreover have "nat (time_steps cfg mod 3) = ?ts mod 3"
    using ts by (simp add: nat_mod_distrib)
  ultimately have m: "?ts mod 3 \<noteq> 0" by simp
  have r: "m mod 3 \<noteq> 0 \<Longrightarrow> 3 * (m div 3) < m" for m :: nat
    by presburger
  have lt: "?len < ?ts"
    using r[OF m] by (simp add: length_u_applied)
  have fail: "time_step cfg ?len s = Inl IndexError" for s
    using N L by (intro time_step_out_of_range) simp_all
  obtain s where s: "time_loop cfg [0..<?len] (initial_state cfg) = Inr s"
    using time_loop_good_ok[OF N L order_refl] by blast
  have split: "[0..<?ts] = [0..<?len] @ ?len # [Suc ?len..<?ts]"
    using lt by (metis le_add2 less_imp_add_positive upt_add_eq_append upt_conv_Cons zero_le less_or_eq_imp_le)
  have "time_loop cfg [0..<?ts] (initial_state cfg) = Inl IndexError"
    by (simp add: split time_loop_append s fail)
  moreover have "\<not> time_steps cfg div 3 < 0"
    using ts by (simp add: pos_imp_zdiv_neg_iff)
  ultimately have "simulate cfg = Inl (if del_T cfg = 0 then ZeroDivisionError else IndexError)"
    using nu N by (simp add: simulate_def)
  with s show ?thesis by blast
qed

text \<open>Every state of a run has the shapes the arrays were allocated with.\<close>

lemma array_shapes_well_formed:
  "array_shapes cfg st \<Longrightarrow> n < nat (time_steps cfg) \<Longrightarrow> well_formed cfg n st"
  by (simp add: array_shapes_def well_formed_def list_all_length)

lemma array_shapes_initial: "array_shapes cfg (initial_state cfg)"
  by (simp add: array_shapes_def initial_state_def list_all_length)

lemma time_step_array_shapes:
  assumes step: "time_step cfg n st = Inr st'" and sh: "array_shapes cfg st"
    and n: "n < nat (time_steps cfg)"
  shows "array_shapes cfg st'"
proof -
  from step obtain nv s where s: "x_loop cfg n nv [0..<nx cfg] st = Inr s"
    and st': "st' = s\<lparr> u_previous := u_current s, u_current := u_future s \<rparr>"
    by (rule time_step_InrD)
  note eff = x_loop_effect[OF s order_refl array_shapes_well_formed[OF sh n]]
  have cur: "u_current s = u_current st" and fut: "length (u_future s) = nx cfg"
    and len: "length (u_vector_solution s) = length (u_vector_solution st)"
    and other: "\<And>m. m \<noteq> n \<Longrightarrow> u_vector_solution s ! m = u_vector_solution st ! m"
    and row: "length (u_vector_solution s ! n) = nx cfg"
    using eff by blast+
  have sh': "length (u_current st) = nx cfg" "length (u_vector_solution st) = nat (time_steps cfg)"
    "\<And>m. m < nat (time_steps cfg) \<Longrightarrow> length (u_vector_solution st ! m) = nx cfg"
    using sh by (simp_all add: array_shapes_def list_all_length)
  have rows: "length (u_vector_solution s ! m) = nx cfg" if "m < nat (time_steps cfg)" for m
    using that row other[of m] sh'(3)[of m] by (cases "m = n") simp_all
  have "list_all (\<lambda>row. length row = nx cfg) (u_vector_solution s)"
    unfolding list_all_length using rows len sh'(2) by simp
  then show ?thesis
    using cur fut len sh'(1,2) by (simp add: st' array_shapes_def)
qed

lemma time_loop_array_shapes:
  "time_loop cfg [0..<j] (initial_state cfg) = Inr st \<Longrightarrow> j \<le> nat (time_steps cfg) \<Longrightarrow>
   array_shapes cfg st"
proof (induction j arbitrary: st)
  case 0
  then have "st = initial_state cfg" by simp
  then show ?case by (simp add: array_shapes_initial)
next
  case (Suc j)
  from Suc.prems(1) obtain s where s: "time_loop cfg [0..<j] (initial_state cfg) = Inr s"
    and step: "time_step cfg j s = Inr st"
    by (auto simp: time_loop_append split: sum.splits)
  have sh: "array_shapes cfg s" using Suc.IH[OF s] Suc.prems(2) by simp
  have "j < nat (time_steps cfg)" using Suc.prems(2) by simp
  with step sh show ?case by (rule time_step_array_shapes)
qed

lemma run_states_well_formed:
  assumes "time_loop cfg [0..<n] (initial_state cfg) = Inr st" and "n < nat (time_steps cfg)"
  shows "well_formed cfg n st"
proof -
  have "n \<le> nat (time_steps cfg)" using assms(2) by simp
  with assms(1) have "array_shapes cfg st" by (rule time_loop_array_shapes)
  then show ?thesis using assms(2) by (rule array_shapes_well_formed)
qed

subsection \<open>Motion under the body force alone\<close>



lemma sum_term_of_no_bond_force:
  "(\<And>p. p \<in> set ps \<Longrightarrow> bond_force cfg nv p x = Fin 0) \<Longrightarrow>
   sum_term_of cfg nv x ps (Fin s) = Fin (s + real (length ps) * body_force)"
proof (induction ps arbitrary: s)
  case Nil
  show ?case by (simp add: sum_term_of_def)
next
  case (Cons p ps)
  have "sum_term_of cfg nv x (p # ps) (Fin s) = sum_term_of cfg nv x ps (Fin (s + body_force))"
    using Cons.prems[of p] by (simp add: sum_term_of_def)
  also have "\<dots> = Fin (s + body_force + real (length ps) * body_force)"
    using Cons.prems by (intro Cons.IH) simp
  finally show ?case by (simp add: algebra_simps)
qed








subsection \<open>How the loops fail\<close>













subsection \<open>The states of a run\<close>






subsection \<open>Bond terms and the update formula\<close>


lemma bond_force_broken:
  assumes "stretch cfg nv p x = Fin s" and "s0 cfg < s" and "ksi cfg p x + eta nv p x \<noteq> 0"
  shows "bond_force cfg nv p x = Fin 0"
  using assms by (simp add: bond_force_def mu_def np_div_def)


lemma bond_force_far:
  assumes k: "0 < ksi cfg p x" and neg: "ksi cfg p x + eta nv p x < 0"
    and far: "ksi cfg p x + eta nv p x < - ((1 + s0 cfg) * ksi cfg p x)"
  shows "bond_force cfg nv p x = Fin 0"
proof -
  let ?k = "ksi cfg p x" and ?e = "eta nv p x"
  have s: "stretch cfg nv p x = Fin ((- (?k + ?e) - ?k) / ?k)"
    using k neg by (simp add: stretch_def np_div_def)
  have "s0 cfg * ?k < - (?k + ?e) - ?k" using far by (simp add: algebra_simps)
  then have "s0 cfg < (- (?k + ?e) - ?k) / ?k"
    using k by (simp add: pos_less_divide_eq)
  with s show ?thesis using neg by (intro bond_force_broken) simp_all
qed

lemma central_difference_real:
  "central_difference cfg a u p =
     (case (a, u, p) of
        (Fin a', Fin u', Fin p') \<Rightarrow> Fin (a' * (del_T cfg)\<^sup>2 + 2 * u' - p')
      | _ \<Rightarrow> NonFinite)"
  by (cases a; cases u; cases p) (simp_all add: central_difference_def)


subsection \<open>Evaluation at the concrete configurations\<close>

lemmas eval_defs = time_step_def node_values_at_def nodes_def linspace_def in_boundary_layer_def
  start_position_def end_position_def
  node_iter_def neighbor_ids_def euclid_line ksi_abs bond_force_def stretch_def eta_def mu_def
  np_div_def c_def K_def horizon_def delta_x_def body_force_def py_int_def u_applied_def
  u_applied_of_replicate nx_def initial_state_def upt_conv_Cons

lemma two_point_step0:
  "time_step two_point_config 0 (initial_state two_point_config) = Inr two_point_after_step0"
  by (simp add: two_point_config_def reference_config_def eval_defs replicate_2 replicate_4
        two_point_after_step0_def)







text \<open>Further steps of the small bars, by evaluation of the loops.\<close>

lemma three_point_accel_1:
  "accel_at three_point_config 0 (initial_state three_point_config) 1 = Some NonFinite"
  by (simp add: accel_at_def three_point_config_def reference_config_def eval_defs replicate_3
        ceiling_neg_half)

lemma half_step_steps01:
  "time_loop half_step_config [0..<2] (initial_state half_step_config) = Inr half_step_after_step1"
  by (simp add: half_step_config_def reference_config_def eval_defs replicate_2 replicate_4
        half_step_after_step1_def power2_eq_square)

lemma half_step_step2:
  "time_step half_step_config 2 half_step_after_step1 = Inr half_step_after_step2"
  by (simp add: half_step_config_def reference_config_def eval_defs replicate_2 replicate_4
        half_step_after_step1_def half_step_after_step2_def power2_eq_square)

lemma half_step_accel:
  "accel_at half_step_config 2 half_step_after_step1 1 = Some (Fin (49 / 40000))"
  by (simp add: accel_at_def half_step_config_def reference_config_def eval_defs replicate_2 replicate_4
        half_step_after_step1_def power2_eq_square)

lemma single_point_step0:
  "time_step single_point_config 0 (initial_state single_point_config) = Inl NameError"
  by (simp add: single_point_config_def reference_config_def eval_defs)

lemma point_bar_step0:
  "time_step point_bar_config 0 (initial_state point_bar_config) = Inl ZeroDivisionError"
  by (simp add: point_bar_config_def reference_config_def eval_defs)

lemma reference_fields:
  "rho reference_config = 8 / 10 ^ 6" "Young_modulus reference_config = 1957855 / 100"
  "nu reference_config = 3 / 10" "s0 reference_config = 2 / 100"
  "total_time reference_config = 15" "del_T reference_config = 1 / 10"
  "time_steps reference_config = 150"
  "bar_length reference_config = 15" "number_of_elements reference_config = 7"
  "vol reference_config = 1" "u0 reference_config = 2 / 100"
  by (simp_all add: reference_config_def)

lemma nodes_reference: "nodes reference_config = [- 15 / 2, - 5, - 5 / 2, 0, 5 / 2, 5, 15 / 2]"
  by (simp add: nodes_def reference_fields linspace_def upt_7)

lemma horizon_reference: "horizon reference_config = 4521 / 700"
  by (simp add: horizon_def delta_x_def reference_fields)

lemma time_steps_reference: "time_steps reference_config = 150"
  by (simp add: reference_fields)

lemma nx_reference: "nx reference_config = 7"
  by (simp add: nx_def reference_fields)

lemma boundary_layer_reference:
  "filter (in_boundary_layer reference_config) [0..<nx reference_config] = [0, 1, 2, 4, 5, 6]"
  by (simp add: in_boundary_layer_def nodes_reference horizon_reference nx_reference upt_7
        start_position_def end_position_def reference_fields)

lemma in_boundary_layer_reference:
  "map (in_boundary_layer reference_config) [0, 1, 2, 3, 4, 5, 6]
     = [True, True, True, False, True, True, True]"
  by (simp add: in_boundary_layer_def nodes_reference horizon_reference
        start_position_def end_position_def reference_fields)

lemma node_values_of_reference: "node_values_of reference_config v = [v, v, v, 0, v, v, v]"
  by (simp add: node_values_of_def in_boundary_layer_def nodes_reference horizon_reference
        nx_reference upt_7 start_position_def end_position_def reference_fields)

lemma node_values_at_reference:
  assumes "n < 150"
  shows "node_values_at reference_config n =
     Inr (node_values_of reference_config
            (if n < 50 then 2 / 100 else if n < 100 then - (2 / 100) else 0))"
  using assms
  by (simp add: node_values_at_eq length_u_applied u_applied_nth time_steps_reference
        reference_fields)

lemma neighbor_ids_reference_3: "neighbor_ids reference_config 3 = [1, 2, 3, 4, 5]"
  by (simp add: neighbor_ids_def euclid_line nodes_reference horizon_reference nx_reference upt_7)

lemma neighbor_ids_reference_6: "neighbor_ids reference_config 6 = [4, 5, 6]"
  by (simp add: neighbor_ids_def euclid_line nodes_reference horizon_reference nx_reference upt_7)

lemma partners_reference_3: "partners reference_config 3 = [0, 1, 2, 4]"
  by (simp add: partners_def neighbor_ids_reference_3 upt_conv_Cons)

lemma partners_reference_6: "partners reference_config 6 = [0, 1, 2]"
  by (simp add: partners_def neighbor_ids_reference_6 upt_conv_Cons)

lemma c_reference_pos: "0 < c reference_config"
  by (simp add: c_def K_def horizon_reference reference_fields)

lemma acc_reference_3:
  "acc_of reference_config [1 / 50, 1 / 50, 1 / 50, 0, 1 / 50, 1 / 50, 1 / 50] 3
     = Fin ((c reference_config * (47 / 1750) + 4 * body_force) / rho reference_config)"
  by (simp add: acc_of_def partners_reference_3 sum_term_of_def bond_force_def stretch_def
     eta_def mu_def np_div_def ksi_abs nodes_reference py_int_def reference_fields body_force_def
     field_simps)

lemma reference_step0:
  "time_step reference_config 0 (initial_state reference_config) = Inr reference_after_step0
   \<and> u_current reference_after_step0 ! 3
        = Fin ((c reference_config * (47 / 1750) + 4 * body_force) / rho reference_config / 100)
   \<and> u_vector_solution reference_after_step0 ! 0 = replicate 7 (Fin 0)"
proof -
  have N: "2 \<le> number_of_elements reference_config" and L: "0 < bar_length reference_config"
    by (simp_all add: reference_fields)
  have n: "0 < length (u_applied reference_config)"
    by (simp add: length_u_applied time_steps_reference)
  have wf: "well_formed reference_config 0 (initial_state reference_config)"
    by (simp add: well_formed_initial time_steps_reference)
  have u0: "u_applied reference_config ! 0 = 1 / 50"
    using n by (simp add: u_applied_nth time_steps_reference reference_fields)
  from time_step_good_effect[OF N L n wf] obtain st' where
    st': "time_step reference_config 0 (initial_state reference_config) = Inr st'"
    and cur: "u_current st' =
           map (\<lambda>i. central_difference reference_config
                       (acc_of reference_config (node_values_of reference_config (1 / 50)) i)
                       (u_current (initial_state reference_config) ! i)
                       (u_previous (initial_state reference_config) ! i)) [0..<nx reference_config]"
    and sol: "u_vector_solution st' =
           (u_vector_solution (initial_state reference_config))[0 := u_current (initial_state reference_config)]"
    unfolding u0 by blast
  have eq: "reference_after_step0 = st'"
    by (simp add: reference_after_step0_def st')
  have "u_current st' ! 3 =
      Fin ((c reference_config * (47 / 1750) + 4 * body_force) / rho reference_config / 100)"
    by (simp add: cur nx_reference node_values_of_reference acc_reference_3
          central_difference_def initial_state_def reference_fields power2_eq_square)
  moreover have "u_vector_solution st' ! 0 = replicate 7 (Fin 0)"
    by (simp add: sol initial_state_def time_steps_reference nx_reference)
  ultimately show ?thesis using st' eq by simp
qed

lemma reference_good:
  "2 \<le> number_of_elements reference_config" "0 < bar_length reference_config"
  "length (u_applied reference_config) = 150"
  by (simp_all add: reference_fields length_u_applied)

lemma reference_step1:
  "time_step reference_config 1 reference_after_step0 = Inr reference_after_step1"
proof -
  obtain s where "time_step reference_config 1 reference_after_step0 = Inr s"
    using time_step_good_ok[OF reference_good(1,2), of 1 reference_after_step0]
    by (auto simp: reference_good(3))
  then show ?thesis by (simp add: reference_after_step1_def)
qed

lemma reference_after_step0_well_formed: "well_formed reference_config 1 reference_after_step0"
proof -
  have "time_loop reference_config [0..<1] (initial_state reference_config)
          = Inr reference_after_step0"
    using reference_step0 by (simp add: upt_conv_Cons)
  then show ?thesis
    by (rule run_states_well_formed) (simp add: time_steps_reference)
qed

lemma c_reference_gt: "40 < c reference_config"
proof -
  let ?h = "(4521 / 700 :: real) ^ 4"
  let ?A = "18 * ((1957855 / 100) / (3 * (1 - 2 * (3 / 10)))) :: real"
  have "pi * ?h < 4 * ?h" using pi_less_4 by simp
  moreover have "0 < pi * ?h" using pi_gt_zero by simp
  ultimately have "?A / (4 * ?h) < ?A / (pi * ?h)"
    by (intro divide_strict_left_mono) simp_all
  moreover have "40 < ?A / (4 * ?h)" by (simp add: power4_eq_xxxx)
  ultimately show ?thesis
    by (simp add: c_def K_def horizon_reference reference_fields)
qed

lemma acc_reference_3_displaced:
  assumes "20 < X"
  shows "acc_of reference_config [1 / 50, 1 / 50, 1 / 50, X, 1 / 50, 1 / 50, 1 / 50] 3
           = Fin (49 / 10000)"
proof -
  let ?nv = "[1 / 50, 1 / 50, 1 / 50, X, 1 / 50, 1 / 50, 1 / 50]"
  have "bond_force reference_config ?nv p 3 = Fin 0" if "p \<in> set (partners reference_config 3)" for p
  proof (rule bond_force_far)
    from that have p: "p = 0 \<or> p = 1 \<or> p = 2 \<or> p = 4" by (simp add: partners_reference_3)
    then show "0 < ksi reference_config p 3"
      by (auto simp: ksi_abs nodes_reference py_int_def)
    from p assms show "ksi reference_config p 3 + eta ?nv p 3 < 0"
      by (auto simp: ksi_abs nodes_reference py_int_def eta_def)
    from p assms show "ksi reference_config p 3 + eta ?nv p 3
        < - ((1 + s0 reference_config) * ksi reference_config p 3)"
      by (auto simp: ksi_abs nodes_reference py_int_def eta_def reference_fields)
  qed
  then have "sum_term_of reference_config ?nv 3 (partners reference_config 3) (Fin 0)
        = Fin (0 + real (length (partners reference_config 3)) * body_force)"
    by (rule sum_term_of_no_bond_force)
  then show ?thesis
    by (simp add: acc_of_def partners_reference_3 body_force_def reference_fields np_div_def)
qed





































section \<open>The claims\<close>

subsection \<open>C1: the field the forces are evaluated from\<close>

text \<open>
  C1, as stated: at every step the boundary value overwrites \<open>u_current\<close> at the
  boundary-layer points before the force evaluation, and the forces are evaluated from
  that field (\<open>prescribed_current\<close>: prescribed at the boundary layer, the evolved
  current displacement elsewhere). On the code, \<open>u_current\<close> is not written before
  the rotation: the row recorded at step 0 of the reference run, which is written after
  the force evaluation of each point, is all zero, not the prescribed field. And the
  field the forces are evaluated from at step 1 is zero at the interior point 3, where
  the current displacement is not.
\<close>

theorem boundary_overwrites_current_counterexample:
  "time_step reference_config 0 (initial_state reference_config) = Inr reference_after_step0
   \<and> u_vector_solution reference_after_step0 ! 0 = replicate 7 (Fin 0)
   \<and> prescribed_current reference_config 0 (initial_state reference_config)
        = [Fin (1 / 50), Fin (1 / 50), Fin (1 / 50), Fin 0, Fin (1 / 50), Fin (1 / 50), Fin (1 / 50)]
   \<and> u_vector_solution reference_after_step0 ! 0
        \<noteq> prescribed_current reference_config 0 (initial_state reference_config)
   \<and> node_values_at reference_config 1 = Inr [1 / 50, 1 / 50, 1 / 50, 0, 1 / 50, 1 / 50, 1 / 50]
   \<and> map Fin [1 / 50, 1 / 50, 1 / 50, 0, 1 / 50, 1 / 50, 1 / 50]
        \<noteq> prescribed_current reference_config 1 reference_after_step0"
proof -
  have len: "0 < length (u_applied reference_config)"
    by (simp add: length_u_applied time_steps_reference)
  have u0: "u_applied reference_config ! 0 = 1 / 50"
    using len by (simp add: u_applied_nth time_steps_reference reference_fields)
  have p0: "prescribed_current reference_config 0 (initial_state reference_config)
        = [Fin (1 / 50), Fin (1 / 50), Fin (1 / 50), Fin 0, Fin (1 / 50), Fin (1 / 50), Fin (1 / 50)]"
    using in_boundary_layer_reference
    by (simp add: prescribed_current_def nx_reference upt_7 u0 initial_state_def)
  define X where "X = (c reference_config * (47 / 1750) + 4 * body_force) / rho reference_config / 100"
  have "0 < X"
    using c_reference_pos by (simp add: X_def body_force_def reference_fields)
  moreover have "u_current reference_after_step0 ! 3 = Fin X"
    using reference_step0 unfolding X_def by blast
  ultimately have "u_current reference_after_step0 ! 3 \<noteq> Fin 0"
    by simp
  then have "map Fin [1 / 50, 1 / 50, 1 / 50, 0, 1 / 50, 1 / 50, 1 / 50] ! 3
               \<noteq> prescribed_current reference_config 1 reference_after_step0 ! 3"
    using in_boundary_layer_reference
    by (simp add: prescribed_current_def nx_reference upt_7)
  then have ne: "map Fin [1 / 50, 1 / 50, 1 / 50, 0, 1 / 50, 1 / 50, 1 / 50]
                  \<noteq> prescribed_current reference_config 1 reference_after_step0"
    by metis
  show ?thesis
    using reference_step0 p0 node_values_at_reference[of 1] ne
    by (simp add: node_values_of_reference replicate_7)
qed

text \<open>
  C1, amended: at every step that completes, the boundary value of the step is written
  into a fresh all-zero array \<open>node_values\<close> at the boundary-layer points, and the
  bond forces of every point with a bond term are evaluated from \<open>node_values\<close>
  (the prescribed value at the boundary-layer points, zero at all other points);
  \<open>u_current\<close> is left as it was: it is what the step records and what becomes
  \<open>u_previous\<close>.
\<close>

theorem forces_read_fresh_node_values:
  assumes step: "time_step cfg n st = Inr st'" and wf: "well_formed cfg n st"
  shows "node_values_at cfg n = Inr (node_values_of cfg (u_applied cfg ! n))
       \<and> (\<forall>i<nx cfg. partners cfg i \<noteq> [] \<longrightarrow>
             accel_at cfg n st i = Some (acc_of cfg (node_values_of cfg (u_applied cfg ! n)) i))
       \<and> u_vector_solution st' ! n = u_current st
       \<and> u_previous st' = u_current st"
proof -
  from step obtain nv s where nv: "node_values_at cfg n = Inr nv"
    and s: "x_loop cfg n nv [0..<nx cfg] st = Inr s"
    and st': "st' = s\<lparr> u_previous := u_current s, u_current := u_future s \<rparr>"
    by (rule time_step_InrD)
  have nv_eq: "nv = node_values_of cfg (u_applied cfg ! n)"
    using nv by (rule node_values_at_InrD)
  have acc: "accel_at cfg n st i = Some (acc_of cfg nv i)"
    if i: "i < nx cfg" and p: "partners cfg i \<noteq> []" for i
  proof -
    obtain si where si: "x_loop cfg n nv [0..<Suc i] st = Inr si"
      using x_loop_prefix_ok[OF s, of "Suc i"] i by auto
    then have "acceleration si = Some (acc_of cfg nv i)"
      using p by (rule acc_var_fresh)
    with si show ?thesis
      by (simp only: accel_at_def nv sum.case)
  qed
  note eff = x_loop_effect[OF s order_refl wf]
  have "u_vector_solution s ! n = u_current st"
    using eff wf by (intro nth_equalityI) (simp_all add: well_formed_def)
  then have rec: "u_vector_solution st' ! n = u_current st" by (simp add: st')
  have prev: "u_previous st' = u_current st" using eff by (simp add: st')
  show ?thesis using nv acc rec prev unfolding nv_eq by blast
qed

text \<open>
  At step 1 of the notebook's run the interior point 3 has a current displacement above
  20. Its acceleration is the one computed from \<open>node_values\<close>, where its value is
  zero, with bond forces that are not zero; the field of the claim as stated, with the
  current displacement at point 3, would break every bond of the point and give the
  acceleration \<open>4 * 9.8e-9 / rho = 0.0049\<close>.
\<close>

theorem forces_read_fresh_node_values_witness:
  "time_step reference_config 0 (initial_state reference_config) = Inr reference_after_step0
   \<and> time_step reference_config 1 reference_after_step0 = Inr reference_after_step1
   \<and> well_formed reference_config 1 reference_after_step0
   \<and> node_values_at reference_config 1
       = Inr (node_values_of reference_config (u_applied reference_config ! 1))
   \<and> node_values_of reference_config (u_applied reference_config ! 1)
       = [1 / 50, 1 / 50, 1 / 50, 0, 1 / 50, 1 / 50, 1 / 50]
   \<and> 3 < nx reference_config \<and> partners reference_config 3 \<noteq> []
   \<and> \<not> in_boundary_layer reference_config 3
   \<and> (\<exists>X. u_current reference_after_step0 ! 3 = Fin X \<and> 20 < X
        \<and> acc_of reference_config [1 / 50, 1 / 50, 1 / 50, X, 1 / 50, 1 / 50, 1 / 50] 3
            = Fin (49 / 10000))
   \<and> accel_at reference_config 1 reference_after_step0 3
       = Some (acc_of reference_config
                 (node_values_of reference_config (u_applied reference_config ! 1)) 3)
   \<and> accel_at reference_config 1 reference_after_step0 3
       = Some (Fin ((c reference_config * (47 / 1750) + 4 * body_force) / rho reference_config))
   \<and> accel_at reference_config 1 reference_after_step0 3 \<noteq> Some (Fin (49 / 10000))
   \<and> u_vector_solution reference_after_step1 ! 1 = u_current reference_after_step0
   \<and> u_previous reference_after_step1 = u_current reference_after_step0"
proof -
  let ?nv = "node_values_of reference_config (u_applied reference_config ! 1)"
  have "(1 :: nat) < length (u_applied reference_config)"
    by (simp add: reference_good(3))
  then have "u_applied reference_config ! 1 =
     (if 1 < nat (time_steps reference_config) div 3 then u0 reference_config
      else if 1 < 2 * (nat (time_steps reference_config) div 3) then - u0 reference_config else 0)"
    by (rule u_applied_nth)
  also have "\<dots> = 1 / 50"
    by (simp add: reference_fields)
  finally have u1: "u_applied reference_config ! 1 = 1 / 50" .
  have nv: "?nv = [1 / 50, 1 / 50, 1 / 50, 0, 1 / 50, 1 / 50, 1 / 50]"
    unfolding u1 by (simp add: node_values_of_reference)
  have three: "3 < nx reference_config" "partners reference_config 3 \<noteq> []"
    by (simp_all add: nx_reference partners_reference_3)
  have interior: "\<not> in_boundary_layer reference_config 3"
    using in_boundary_layer_reference by simp
  define X where "X = (c reference_config * (47 / 1750) + 4 * body_force) / rho reference_config / 100"
  have cur: "u_current reference_after_step0 ! 3 = Fin X"
    using reference_step0 unfolding X_def by blast
  have "20 < 40 * (47 / 1750) / (8 / 10 ^ 6) / (100 :: real)" by simp
  also have "\<dots> < (c reference_config * (47 / 1750) + 4 * body_force) / (8 / 10 ^ 6) / 100"
    using c_reference_gt by (simp add: body_force_def)
  finally have X: "20 < X" by (simp add: X_def reference_fields)
  have spec: "acc_of reference_config [1 / 50, 1 / 50, 1 / 50, X, 1 / 50, 1 / 50, 1 / 50] 3
            = Fin (49 / 10000)"
    using X by (rule acc_reference_3_displaced)
  have ex: "\<exists>X. u_current reference_after_step0 ! 3 = Fin X \<and> 20 < X
        \<and> acc_of reference_config [1 / 50, 1 / 50, 1 / 50, X, 1 / 50, 1 / 50, 1 / 50] 3
            = Fin (49 / 10000)"
    using cur X spec by blast
  note inst = forces_read_fresh_node_values[OF reference_step1 reference_after_step0_well_formed]
  have acc: "accel_at reference_config 1 reference_after_step0 3 = Some (acc_of reference_config ?nv 3)"
    using inst three by blast
  have val: "accel_at reference_config 1 reference_after_step0 3
       = Some (Fin ((c reference_config * (47 / 1750) + 4 * body_force) / rho reference_config))"
    unfolding acc nv by (simp only: acc_reference_3)
  have "(c reference_config * (47 / 1750) + 4 * body_force) / rho reference_config \<noteq> 49 / 10000"
    using c_reference_pos by (simp add: body_force_def reference_fields field_simps)
  then have ne: "accel_at reference_config 1 reference_after_step0 3 \<noteq> Some (Fin (49 / 10000))"
    unfolding val by simp
  have a: "time_step reference_config 0 (initial_state reference_config) = Inr reference_after_step0"
    using reference_step0 by blast
  from inst have nva: "node_values_at reference_config 1 = Inr ?nv"
    and rec: "u_vector_solution reference_after_step1 ! 1 = u_current reference_after_step0"
    and prev: "u_previous reference_after_step1 = u_current reference_after_step0"
    by blast+
  show ?thesis
    using a reference_step1 reference_after_step0_well_formed nva nv three interior ex acc val ne
      rec prev
    by blast
qed

subsection \<open>C2: which bonds are summed\<close>

text \<open>
  C2 says that the net force density of a point \<open>i\<close> is the sum of one contribution
  per point \<open>j \<noteq> i\<close> within the horizon of \<open>i\<close>, each with \<open>ksi = |x_j - x_i|\<close>. The
  code counts the points within the horizon and then loops over that many loop
  positions \<open>p = 0, 1, ...\<close>, reading the coordinates of point \<open>p\<close> through \<open>int(...)\<close>.
  For point 6 of the reference configuration (coordinate 7.5) the points within the
  horizon are 4, 5 and 6, at distances 5 and 2.5 from it; the loop sums the terms of the
  points 0, 1 and 2 instead, with \<open>ksi\<close> 14.5, 12.5 and 9.5 (the true distances are 15,
  12.5 and 10), for every field \<open>nv\<close> and every earlier value \<open>a\<close> of \<open>acceleration\<close>.
\<close>

theorem point_six_sums_over_first_three_points:
  "neighbor_ids reference_config 6 = [4, 5, 6]
   \<and> map (\<lambda>j. \<bar>nodes reference_config ! j - nodes reference_config ! 6\<bar>) [4, 5] = [5, 5 / 2]
   \<and> partners reference_config 6 = [0, 1, 2]
   \<and> map (\<lambda>p. ksi reference_config p 6) [0, 1, 2] = [29 / 2, 25 / 2, 19 / 2]
   \<and> p_loop reference_config nv 6 [0..<length (neighbor_ids reference_config 6)] (Fin 0, a)
       = Inr (sum_term_of reference_config nv 6 [0, 1, 2] (Fin 0),
              Some (fdiv (sum_term_of reference_config nv 6 [0, 1, 2] (Fin 0))
                      (rho reference_config)))"
proof -
  have h: "horizon reference_config \<noteq> 0" by (simp add: horizon_reference)
  have f: "filter (\<lambda>p. p \<noteq> 6) [0..<length (neighbor_ids reference_config 6)] = [0, 1, 2]"
    using partners_reference_6 by (simp add: partners_def)
  have loop: "p_loop reference_config nv 6 [0..<length (neighbor_ids reference_config 6)] (Fin 0, a)
       = Inr (sum_term_of reference_config nv 6 [0, 1, 2] (Fin 0),
              Some (fdiv (sum_term_of reference_config nv 6 [0, 1, 2] (Fin 0))
                      (rho reference_config)))"
    unfolding p_loop_eq[OF h] f by simp
  have dist: "map (\<lambda>j. \<bar>nodes reference_config ! j - nodes reference_config ! 6\<bar>) [4, 5] = [5, 5 / 2]"
    by (simp add: nodes_reference)
  have k: "map (\<lambda>p. ksi reference_config p 6) [0, 1, 2] = [29 / 2, 25 / 2, 19 / 2]"
    by (simp add: ksi_abs nodes_reference py_int_def)
  show ?thesis
    using neighbor_ids_reference_6 dist partners_reference_6 k loop by blast
qed

subsection \<open>C3: damage is not remembered\<close>




subsection \<open>C4: central differences, recording and buffer rotation\<close>

text \<open>
  C4. At every time step that completes, for every point \<open>i\<close> the integrator computes
  \<open>u_future[i] = acceleration[i] * dt^2 + 2 * u_current[i] - u_previous[i]\<close>, where
  \<open>acceleration[i]\<close> is the value of the variable \<open>acceleration\<close> when the loop reaches
  the update of point \<open>i\<close> (the result is non-finite when one of the three operands
  is); the recorder stores the pre-update \<open>u_current\<close> under the step's index \<open>n\<close>
  and leaves the other rows alone; then the buffers rotate: the old current field is
  the new previous one and the computed future field is the new current one. (Every
  state of a run is well formed: \<open>run_states_well_formed\<close>.)
\<close>

theorem time_step_central_difference:
  assumes step: "time_step cfg n st = Inr st'" and wf: "well_formed cfg n st"
  shows "(\<forall>i<nx cfg. \<exists>a. accel_at cfg n st i = Some a
            \<and> u_current st' ! i =
                (case (a, u_current st ! i, u_previous st ! i) of
                   (Fin acc, Fin u_cur, Fin u_prev) \<Rightarrow> Fin (acc * (del_T cfg)\<^sup>2 + 2 * u_cur - u_prev)
                 | _ \<Rightarrow> NonFinite))
       \<and> u_vector_solution st' ! n = u_current st
       \<and> (\<forall>m. m \<noteq> n \<longrightarrow> u_vector_solution st' ! m = u_vector_solution st ! m)
       \<and> u_previous st' = u_current st
       \<and> u_future st' = u_current st'"
proof -
  from step obtain nv s where nv: "node_values_at cfg n = Inr nv"
    and s: "x_loop cfg n nv [0..<nx cfg] st = Inr s"
    and st': "st' = s\<lparr> u_previous := u_current s, u_current := u_future s \<rparr>"
    by (auto simp: time_step_def split: sum.splits)
  note eff = x_loop_effect[OF s order_refl wf]
  have acc: "accel_at cfg n st i = acc_var cfg n nv st i" for i
    by (simp add: accel_at_acc_var nv)
  have a: "\<forall>i<nx cfg. \<exists>a. accel_at cfg n st i = Some a
            \<and> u_current st' ! i =
                (case (a, u_current st ! i, u_previous st ! i) of
                   (Fin acc, Fin u_cur, Fin u_prev) \<Rightarrow> Fin (acc * (del_T cfg)\<^sup>2 + 2 * u_cur - u_prev)
                 | _ \<Rightarrow> NonFinite)"
    using eff unfolding central_difference_real by (simp add: acc st')
  have "u_vector_solution s ! n = u_current st"
    using eff wf by (intro nth_equalityI) (simp_all add: well_formed_def)
  then have b: "u_vector_solution st' ! n = u_current st" by (simp add: st')
  have c: "\<forall>m. m \<noteq> n \<longrightarrow> u_vector_solution st' ! m = u_vector_solution st ! m"
    using eff by (simp add: st')
  have d: "u_previous st' = u_current st" "u_future st' = u_current st'"
    using eff by (simp_all add: st')
  show ?thesis using a b c d by blast
qed

theorem time_step_central_difference_witness:
  "time_loop half_step_config [0..<2] (initial_state half_step_config) = Inr half_step_after_step1
   \<and> time_step half_step_config 2 half_step_after_step1 = Inr half_step_after_step2
   \<and> well_formed half_step_config 2 half_step_after_step1
   \<and> accel_at half_step_config 2 half_step_after_step1 1 = Some (Fin (49 / 40000))
   \<and> del_T half_step_config = 1 / 2
   \<and> u_current half_step_after_step1 ! 1 = Fin (147 / 160000)
   \<and> u_previous half_step_after_step1 ! 1 = Fin (49 / 160000)
   \<and> u_current half_step_after_step2 ! 1
        = Fin (49 / 40000 * (1 / 2)\<^sup>2 + 2 * (147 / 160000) - 49 / 160000)
   \<and> u_current half_step_after_step2 ! 1 = Fin (147 / 80000)
   \<and> u_vector_solution half_step_after_step2 ! 2 = [Fin (147 / 160000), Fin (147 / 160000)]
   \<and> u_vector_solution half_step_after_step2 ! 1 = u_vector_solution half_step_after_step1 ! 1
   \<and> u_vector_solution half_step_after_step2 ! 1 = [Fin (49 / 160000), Fin (49 / 160000)]
   \<and> u_previous half_step_after_step2 = [Fin (147 / 160000), Fin (147 / 160000)]
   \<and> u_future half_step_after_step2 = [Fin (147 / 80000), Fin (147 / 80000)]"
proof -
  have wf: "well_formed half_step_config 2 half_step_after_step1"
    by (simp add: well_formed_def half_step_after_step1_def nx_def half_step_config_def)
  have one: "1 < nx half_step_config"
    by (simp add: nx_def half_step_config_def)
  have dt: "del_T half_step_config = 1 / 2"
    by (simp add: half_step_config_def)
  have cur: "u_current half_step_after_step1 = [Fin (147 / 160000), Fin (147 / 160000)]"
    and prev: "u_previous half_step_after_step1 = [Fin (49 / 160000), Fin (49 / 160000)]"
    by (simp_all add: half_step_after_step1_def)
  have row: "u_vector_solution half_step_after_step1 ! 1 = [Fin (49 / 160000), Fin (49 / 160000)]"
    by (simp add: half_step_after_step1_def)
  have ne: "(1 :: nat) \<noteq> 2" by simp
  note inst = time_step_central_difference[OF half_step_step2 wf]
  from inst one obtain a where
    a: "accel_at half_step_config 2 half_step_after_step1 1 = Some a"
    and u: "u_current half_step_after_step2 ! 1 =
          (case (a, u_current half_step_after_step1 ! 1, u_previous half_step_after_step1 ! 1) of
                   (Fin acc, Fin u_cur, Fin u_prev) \<Rightarrow>
                      Fin (acc * (del_T half_step_config)\<^sup>2 + 2 * u_cur - u_prev)
                 | _ \<Rightarrow> NonFinite)"
    by blast
  have a_eq: "a = Fin (49 / 40000)" using a unfolding half_step_accel by simp
  have u1: "u_current half_step_after_step2 ! 1
        = Fin (49 / 40000 * (1 / 2)\<^sup>2 + 2 * (147 / 160000) - 49 / 160000)"
    using u by (simp add: a_eq cur prev dt)
  have u2: "u_current half_step_after_step2 ! 1 = Fin (147 / 80000)"
    using u1 by (simp add: power2_eq_square)
  from inst have rec: "u_vector_solution half_step_after_step2 ! 2 = u_current half_step_after_step1"
    and other: "u_vector_solution half_step_after_step2 ! 1 = u_vector_solution half_step_after_step1 ! 1"
    and p: "u_previous half_step_after_step2 = u_current half_step_after_step1"
    and f: "u_future half_step_after_step2 = u_current half_step_after_step2"
    using ne by blast+
  have f2: "u_future half_step_after_step2 = [Fin (147 / 80000), Fin (147 / 80000)]"
    using f by (simp add: half_step_after_step2_def)
  have cur1: "u_current half_step_after_step1 ! 1 = Fin (147 / 160000)"
    and prev1: "u_previous half_step_after_step1 ! 1 = Fin (49 / 160000)"
    by (simp_all add: cur prev)
  have rec2: "u_vector_solution half_step_after_step2 ! 2 = [Fin (147 / 160000), Fin (147 / 160000)]"
    using rec by (simp only: cur)
  have row2: "u_vector_solution half_step_after_step2 ! 1 = [Fin (49 / 160000), Fin (49 / 160000)]"
    using other by (simp only: row)
  have p2: "u_previous half_step_after_step2 = [Fin (147 / 160000), Fin (147 / 160000)]"
    using p by (simp only: cur)
  show ?thesis
    using half_step_steps01 half_step_step2 wf half_step_accel dt cur1 prev1 u1 u2 rec2 other row2
      p2 f2
    by blast
qed

subsection \<open>C5: zero boundary displacement\<close>




subsection \<open>C6: the boundary layer of the reference configuration\<close>

text \<open>
  C6, as stated: with \<open>L = 15\<close>, \<open>N = 7\<close>, horizon \<open>3.014 * (15/7)\<close>, \<open>u0 = 0.02\<close>
  and 150 steps, the points that receive the boundary value are the two boundary-layer
  points at each end. On the code the third point from each end (indices 2 and 4, at
  distance 5 from its end, within the horizon 6.4586) receives it as well.
\<close>

theorem two_boundary_points_counterexample:
  "in_boundary_layer reference_config 2
   \<and> node_values_at reference_config 0
        = Inr [2 / 100, 2 / 100, 2 / 100, 0, 2 / 100, 2 / 100, 2 / 100]
   \<and> filter (in_boundary_layer reference_config) [0..<nx reference_config] \<noteq> [0, 1, 5, 6]"
  using in_boundary_layer_reference node_values_at_reference[of 0]
  by (simp add: boundary_layer_reference node_values_of_reference)

text \<open>
  C6, amended: in that configuration exactly the points whose reference coordinate lies
  within the horizon of either bar end receive the boundary value at each step; they
  are the three points at each end (indices 0, 1, 2 and 4, 5, 6), and the single
  interior point (index 3) never receives it. The value is \<open>+0.02\<close> at steps 0 to 49,
  \<open>-0.02\<close> at steps 50 to 99 and \<open>0\<close> at steps 100 to 149.
\<close>

theorem reference_boundary_layer_values:
  assumes "n < 150"
  shows "nat (time_steps reference_config) = 150
       \<and> nodes reference_config = [- 15 / 2, - 5, - 5 / 2, 0, 5 / 2, 5, 15 / 2]
       \<and> horizon reference_config = 3014 / 1000 * (15 / 7)
       \<and> filter (in_boundary_layer reference_config) [0..<nx reference_config] = [0, 1, 2, 4, 5, 6]
       \<and> node_values_at reference_config n =
            Inr (if n < 50 then [2 / 100, 2 / 100, 2 / 100, 0, 2 / 100, 2 / 100, 2 / 100]
                 else if n < 100
                 then [- (2 / 100), - (2 / 100), - (2 / 100), 0, - (2 / 100), - (2 / 100), - (2 / 100)]
                 else [0, 0, 0, 0, 0, 0, 0])"
  using assms
  by (simp add: time_steps_reference nodes_reference horizon_reference boundary_layer_reference
        node_values_at_reference node_values_of_reference)

theorem reference_boundary_layer_values_witness:
  "(75 :: nat) < 150
   \<and> filter (in_boundary_layer reference_config) [0..<nx reference_config] = [0, 1, 2, 4, 5, 6]
   \<and> node_values_at reference_config 75 =
        Inr [- (2 / 100), - (2 / 100), - (2 / 100), 0, - (2 / 100), - (2 / 100), - (2 / 100)]"
  using reference_boundary_layer_values[of 75] by simp

subsection \<open>C7: the boundary-condition sequence\<close>

text \<open>
  C7. The boundary-condition generator produces a sequence whose first
  \<open>time_steps div 3\<close> entries all equal \<open>+u0\<close>, whose next \<open>time_steps div 3\<close> entries
  all equal \<open>-u0\<close> and whose final \<open>time_steps div 3\<close> entries all equal \<open>0\<close>. Its
  length is \<open>3 * (time_steps div 3)\<close>, that is \<open>time_steps\<close> less the remainder of the
  division by three: the remainder steps are dropped, not padded.
\<close>

theorem boundary_sequence_three_phases:
  "u_applied_of u ts = replicate (ts div 3) u @ replicate (ts div 3) (- u) @ replicate (ts div 3) 0
   \<and> length (u_applied_of u ts) = 3 * (ts div 3)
   \<and> length (u_applied_of u ts) = ts - ts mod 3"
proof -
  have "3 * (ts div 3) = ts - ts mod 3"
    by (simp add: minus_mod_eq_mult_div)
  then show ?thesis
    by (simp add: u_applied_of_replicate)
qed

theorem boundary_sequence_three_phases_witness:
  "u_applied_of (2 / 100) 8 = [2 / 100, 2 / 100, - (2 / 100), - (2 / 100), 0, 0]
   \<and> length (u_applied_of (2 / 100) 8) = 6"
  using boundary_sequence_three_phases[of "2 / 100" 8] by (simp add: replicate_2)

subsection \<open>C8: what makes a step fail\<close>




subsection \<open>C9: the acceleration does not depend on the displacement fields\<close>

text \<open>
  C9. For a bar of at least two points and positive length, for every time step \<open>n\<close>
  and every point \<open>i\<close>, the acceleration computed for \<open>i\<close> is the same in two runs
  whose states (current, previous and future displacement fields, recorded history and
  the stale value of \<open>acceleration\<close>) differ arbitrarily at step \<open>n\<close>: when the
  step's boundary value can be read, it is a function of that value and of the fixed
  configuration alone.
\<close>

theorem acceleration_independent_of_displacement:
  assumes "2 \<le> number_of_elements cfg" and "0 < bar_length cfg" and "i < nx cfg"
  shows "accel_at cfg n st1 i = accel_at cfg n st2 i
       \<and> (n < length (u_applied cfg) \<longrightarrow>
            accel_at cfg n st1 i = Some (acc_of cfg (node_values_of cfg (u_applied cfg ! n)) i))"
  by (simp add: accel_at_acc_var node_values_at_good[OF assms(1,2)] acc_var_good[OF assms])

theorem acceleration_independent_of_displacement_witness:
  "2 \<le> number_of_elements two_point_config \<and> 0 < bar_length two_point_config
   \<and> 1 < nx two_point_config
   \<and> accel_at two_point_config 1 (initial_state two_point_config) 1
       = accel_at two_point_config 1 two_point_after_step0 1
   \<and> 1 < length (u_applied two_point_config)
   \<and> accel_at two_point_config 1 (initial_state two_point_config) 1
       = Some (acc_of two_point_config
                 (node_values_of two_point_config (u_applied two_point_config ! 1)) 1)"
proof -
  have ts: "time_steps two_point_config = 4"
    by (simp add: two_point_config_def reference_config_def)
  have hyps: "2 \<le> number_of_elements two_point_config" "0 < bar_length two_point_config"
    "1 < nx two_point_config"
    by (simp_all add: nx_def two_point_config_def reference_config_def)
  have len: "1 < length (u_applied two_point_config)"
    by (simp add: length_u_applied ts)
  show ?thesis
    using acceleration_independent_of_displacement[OF hyps,
        of 1 "initial_state two_point_config" two_point_after_step0] hyps len
    by blast
qed

subsection \<open>C10: a step count that is not a multiple of three\<close>

text \<open>
  C10. If \<open>time_steps\<close> is not divisible by three, the boundary-condition sequence has
  only \<open>3 * (time_steps div 3)\<close> entries, fewer than the \<open>time_steps\<close> passes of the
  main loop, and the read \<open>u_applied[n]\<close> of the pass \<open>n = 3 * (time_steps div 3)\<close>
  is out of bounds for a bar with at least one point and a non-negative length (its
  first point lies in the boundary layer); so the notebook fails instead of completing
  all steps. For a bar of at least two points and positive length the passes before
  that one complete and the failure is this \<open>IndexError\<close>.
\<close>

theorem indivisible_time_steps_fail:
  assumes nd: "time_steps cfg mod 3 \<noteq> 0" and ts: "0 \<le> time_steps cfg"
    and N: "0 < number_of_elements cfg" and L: "0 \<le> bar_length cfg"
  shows "length (u_applied cfg) = 3 * (nat (time_steps cfg) div 3)
       \<and> length (u_applied cfg) < nat (time_steps cfg)
       \<and> time_step cfg (length (u_applied cfg)) st = Inl IndexError
       \<and> isl (simulate cfg)
       \<and> (2 \<le> number_of_elements cfg \<and> 0 < bar_length cfg \<and> nu cfg \<noteq> 1 / 2 \<longrightarrow>
            (\<exists>s. time_loop cfg [0..<length (u_applied cfg)] (initial_state cfg) = Inr s)
            \<and> simulate cfg = Inl (if del_T cfg = 0 then ZeroDivisionError else IndexError))"
proof -
  let ?len = "length (u_applied cfg)"
  let ?ts = "nat (time_steps cfg)"
  have "0 < time_steps cfg mod 3" using nd by (simp add: less_le)
  then have "0 < nat (time_steps cfg mod 3)" by simp
  moreover have "nat (time_steps cfg mod 3) = ?ts mod 3"
    using ts by (simp add: nat_mod_distrib)
  ultimately have "?ts mod 3 \<noteq> 0" by simp
  moreover have "m mod 3 \<noteq> 0 \<Longrightarrow> 3 * (m div 3) < m" for m :: nat
    by presburger
  ultimately have lt: "?len < ?ts"
    unfolding length_u_applied by blast
  have fail: "time_step cfg ?len s = Inl IndexError" for s
    using time_step_out_of_range[OF N L order_refl] .
  have loop: "isl (time_loop cfg [0..<?ts] s)" for s
    using lt fail by (intro time_loop_fails[of ?len]) simp_all
  have sim: "isl (simulate cfg)"
    using loop by (simp add: simulate_def)
  have good: "(\<exists>s. time_loop cfg [0..<?len] (initial_state cfg) = Inr s)
      \<and> simulate cfg = Inl (if del_T cfg = 0 then ZeroDivisionError else IndexError)"
    if "2 \<le> number_of_elements cfg" "0 < bar_length cfg" "nu cfg \<noteq> 1 / 2"
    using nd ts that by (rule simulate_index_error)
  show ?thesis using length_u_applied lt fail sim good by blast
qed

theorem indivisible_time_steps_fail_witness:
  "time_steps two_point_config mod 3 \<noteq> 0 \<and> 0 \<le> time_steps two_point_config
   \<and> 0 < number_of_elements two_point_config \<and> 0 \<le> bar_length two_point_config
   \<and> length (u_applied two_point_config) = 3
   \<and> nat (time_steps two_point_config) = 4
   \<and> time_step two_point_config (length (u_applied two_point_config)) two_point_after_step0
        = Inl IndexError
   \<and> isl (simulate two_point_config)
   \<and> 2 \<le> number_of_elements two_point_config \<and> 0 < bar_length two_point_config
   \<and> nu two_point_config \<noteq> 1 / 2
   \<and> (\<exists>s. time_loop two_point_config [0..<length (u_applied two_point_config)]
               (initial_state two_point_config) = Inr s)
   \<and> simulate two_point_config = Inl IndexError"
proof -
  have ts: "time_steps two_point_config = 4"
    by (simp add: two_point_config_def reference_config_def)
  have hyps: "time_steps two_point_config mod 3 \<noteq> 0" "0 \<le> time_steps two_point_config"
    "0 < number_of_elements two_point_config" "0 \<le> bar_length two_point_config"
    by (simp_all add: ts) (simp_all add: two_point_config_def reference_config_def)
  have good: "2 \<le> number_of_elements two_point_config" "0 < bar_length two_point_config"
    "nu two_point_config \<noteq> 1 / 2"
    by (simp_all add: two_point_config_def reference_config_def)
  have len: "length (u_applied two_point_config) = 3"
    by (simp add: length_u_applied ts)
  have dt: "del_T two_point_config \<noteq> 0"
    by (simp add: two_point_config_def)
  show ?thesis
    using indivisible_time_steps_fail[OF hyps, of two_point_after_step0] hyps good len ts dt
    by simp
qed

end
